theory Spec2Isabelle
  imports Main "HOL-Library.AList" "HOL-Library.Sublist"
begin

section \<open>Python values and exceptions\<close>

text \<open>
  A Python \<open>str\<close> is a sequence of code points and a \<open>bytes\<close> object a sequence of
  octets; both are lists of naturals here.  Names that the program only ever uses as
  dictionary keys or as messages (\<open>"SAMLResponse"\<close>, \<open>"Location"\<close>, the adapter's
  name) are HOL strings; \<open>str_of\<close> turns such a literal into a \<open>str\<close>.
\<close>

type_synonym str = "nat list"
type_synonym bytes = "nat list"

definition str_of :: "string \<Rightarrow> str" where
  "str_of s = map of_char s"

text \<open>
  The exceptions that the standard library and the collaborators (pysaml2, the
  downstream callback, the attribute converter) can raise.  \<open>BinasciiError\<close>,
  \<open>AsciiError\<close> (the \<open>ValueError\<close> of \<open>base64._bytes_from_decode_data\<close>),
  \<open>UnicodeEncodeError\<close> and \<open>UnicodeDecodeError\<close> are subclasses of
  \<open>ValueError\<close>; none of them is a \<open>KeyError\<close>.  \<open>LibraryError\<close> stands for any
  exception class of a collaborator's own.
\<close>

datatype pyexc =
    KeyError
  | IndexError
  | TypeError
  | AttributeError
  | AsciiError
  | BinasciiError
  | UnicodeEncodeError
  | UnicodeDecodeError
  | LibraryError string

section \<open>The standard-library codecs used for the mirrored-entity hint\<close>

subsection \<open>UTF-8: \<open>str.encode("utf-8")\<close> and \<open>bytes.decode("utf-8")\<close>\<close>

text \<open>
  The strict UTF-8 codec.  Encoding fails on a lone surrogate (U+D800..U+DFFF); a value
  from 0x110000 on is no code point at all and is refused as well.  Decoding accepts
  exactly the well-formed byte sequences: no overlong form, no surrogate, nothing
  above U+10FFFF.
\<close>

definition unicode_scalar :: "nat \<Rightarrow> bool" where
  "unicode_scalar c \<longleftrightarrow> c < 0xD800 \<or> (0xDFFF < c \<and> c < 0x110000)"

fun encode_utf8 :: "str \<Rightarrow> pyexc + bytes" where
  "encode_utf8 [] = Inr []"
| "encode_utf8 (c # cs) =
     (if (0xD800 \<le> c \<and> c \<le> 0xDFFF) \<or> 0x110000 \<le> c then Inl UnicodeEncodeError
      else case encode_utf8 cs of
        Inl e \<Rightarrow> Inl e
      | Inr bs \<Rightarrow>
          Inr ((if c < 0x80 then [c]
                else if c < 0x800 then [0xC0 + c div 64, 0x80 + c mod 64]
                else if c < 0x10000 then
                  [0xE0 + c div 4096, 0x80 + c div 64 mod 64, 0x80 + c mod 64]
                else
                  [0xF0 + c div 262144, 0x80 + c div 4096 mod 64,
                   0x80 + c div 64 mod 64, 0x80 + c mod 64]) @ bs))"

definition is_continuation :: "nat \<Rightarrow> bool" where
  "is_continuation b \<longleftrightarrow> 0x80 \<le> b \<and> b \<le> 0xBF"

definition emit :: "nat \<Rightarrow> pyexc + str \<Rightarrow> pyexc + str" where
  "emit c r = (case r of Inl e \<Rightarrow> Inl e | Inr cs \<Rightarrow> Inr (c # cs))"

fun decode_utf8 :: "bytes \<Rightarrow> pyexc + str" where
  "decode_utf8 [] = Inr []"
| "decode_utf8 (b0 # bs) =
     (if b0 < 0x80 then emit b0 (decode_utf8 bs)
      else if 0xC2 \<le> b0 \<and> b0 \<le> 0xDF then
        (case bs of
           b1 # bs1 \<Rightarrow>
             if is_continuation b1
             then emit ((b0 - 0xC0) * 64 + (b1 - 0x80)) (decode_utf8 bs1)
             else Inl UnicodeDecodeError
         | _ \<Rightarrow> Inl UnicodeDecodeError)
      else if 0xE0 \<le> b0 \<and> b0 \<le> 0xEF then
        (case bs of
           b1 # b2 # bs2 \<Rightarrow>
             if is_continuation b1 \<and> is_continuation b2
                \<and> \<not> (b0 = 0xE0 \<and> b1 < 0xA0) \<and> \<not> (b0 = 0xED \<and> 0xA0 \<le> b1)
             then emit ((b0 - 0xE0) * 4096 + (b1 - 0x80) * 64 + (b2 - 0x80))
                    (decode_utf8 bs2)
             else Inl UnicodeDecodeError
         | _ \<Rightarrow> Inl UnicodeDecodeError)
      else if 0xF0 \<le> b0 \<and> b0 \<le> 0xF4 then
        (case bs of
           b1 # b2 # b3 # bs3 \<Rightarrow>
             if is_continuation b1 \<and> is_continuation b2 \<and> is_continuation b3
                \<and> \<not> (b0 = 0xF0 \<and> b1 < 0x90) \<and> \<not> (b0 = 0xF4 \<and> 0x90 \<le> b1)
             then emit ((b0 - 0xF0) * 262144 + (b1 - 0x80) * 4096
                        + (b2 - 0x80) * 64 + (b3 - 0x80))
                    (decode_utf8 bs3)
             else Inl UnicodeDecodeError
         | _ \<Rightarrow> Inl UnicodeDecodeError)
      else Inl UnicodeDecodeError)"

subsection \<open>Base64: \<open>base64.urlsafe_b64encode\<close> and \<open>base64.urlsafe_b64decode\<close>\<close>

text \<open>
  \<open>binascii.b2a_base64\<close> turns every three octets into four characters of the
  standard alphabet and pads the last group with \<open>=\<close> (61).  The shifts and masks of
  the C code are written as division and remainder; where it ORs two values their bits
  are disjoint, so the OR is a sum.
\<close>

definition BASE64_PAD :: nat where
  "BASE64_PAD = 61"

definition table_b2a_base64 :: "nat \<Rightarrow> nat" where
  "table_b2a_base64 n =
     (if n < 26 then 65 + n
      else if n < 52 then 71 + n
      else if n < 62 then n - 4
      else if n = 62 then 43
      else 47)"

fun b2a_base64 :: "bytes \<Rightarrow> bytes" where
  "b2a_base64 [] = []"
| "b2a_base64 [a] =
     [table_b2a_base64 (a div 4), table_b2a_base64 (a mod 4 * 16), BASE64_PAD, BASE64_PAD]"
| "b2a_base64 [a, b] =
     [table_b2a_base64 (a div 4), table_b2a_base64 (a mod 4 * 16 + b div 16),
      table_b2a_base64 (b mod 16 * 4), BASE64_PAD]"
| "b2a_base64 (a # b # c # rest) =
     [table_b2a_base64 (a div 4), table_b2a_base64 (a mod 4 * 16 + b div 16),
      table_b2a_base64 (b mod 16 * 4 + c div 64), table_b2a_base64 (c mod 64)]
     @ b2a_base64 rest"

text \<open>\<open>_urlsafe_encode_translation\<close>: \<open>+\<close> becomes \<open>-\<close> and \<open>/\<close> becomes \<open>_\<close>.\<close>

definition urlsafe_encode_translation :: "nat \<Rightarrow> nat" where
  "urlsafe_encode_translation c = (if c = 43 then 45 else if c = 47 then 95 else c)"

definition urlsafe_b64encode :: "bytes \<Rightarrow> bytes" where
  "urlsafe_b64encode s = map urlsafe_encode_translation (b2a_base64 s)"

text \<open>
  \<open>binascii.a2b_base64\<close> in its default, non-strict mode, as CPython 3.11 has it: a
  character outside the alphabet is skipped, a pad ends the input once the quad it
  closes is complete, and input that stops inside a quad is an error.
\<close>

definition table_a2b_base64 :: "nat \<Rightarrow> nat option" where
  "table_a2b_base64 c =
     (if 65 \<le> c \<and> c \<le> 90 then Some (c - 65)
      else if 97 \<le> c \<and> c \<le> 122 then Some (c - 71)
      else if 48 \<le> c \<and> c \<le> 57 then Some (c + 4)
      else if c = 43 then Some 62
      else if c = 47 then Some 63
      else None)"

fun a2b_loop :: "bytes \<Rightarrow> nat \<Rightarrow> nat \<Rightarrow> nat \<Rightarrow> bytes \<Rightarrow> pyexc + bytes" where
  "a2b_loop [] quad_pos leftchar pads bin_data =
     (if quad_pos \<noteq> 0 then Inl BinasciiError else Inr bin_data)"
| "a2b_loop (this_ch # rest) quad_pos leftchar pads bin_data =
     (if this_ch = BASE64_PAD then
        (if 2 \<le> quad_pos \<and> 4 \<le> quad_pos + (pads + 1) then Inr bin_data
         else a2b_loop rest quad_pos leftchar
                (if 2 \<le> quad_pos then pads + 1 else pads) bin_data)
      else
        (case table_a2b_base64 this_ch of
           None \<Rightarrow> a2b_loop rest quad_pos leftchar pads bin_data
         | Some v \<Rightarrow>
             if quad_pos = 0 then a2b_loop rest 1 v 0 bin_data
             else if quad_pos = 1 then
               a2b_loop rest 2 (v mod 16) 0 (bin_data @ [leftchar * 4 + v div 16])
             else if quad_pos = 2 then
               a2b_loop rest 3 (v mod 4) 0 (bin_data @ [leftchar * 16 + v div 4])
             else a2b_loop rest 0 0 0 (bin_data @ [leftchar * 64 + v])))"

definition a2b_base64 :: "bytes \<Rightarrow> pyexc + bytes" where
  "a2b_base64 s = a2b_loop s 0 0 0 []"

text \<open>\<open>_urlsafe_decode_translation\<close>: \<open>-\<close> becomes \<open>+\<close> and \<open>_\<close> becomes \<open>/\<close>.\<close>

definition urlsafe_decode_translation :: "nat \<Rightarrow> nat" where
  "urlsafe_decode_translation c = (if c = 45 then 43 else if c = 95 then 47 else c)"

text \<open>
  Given a \<open>str\<close>, \<open>urlsafe_b64decode\<close> first encodes it as ASCII
  (\<open>_bytes_from_decode_data\<close>), which fails on any code point from 128 on.
\<close>

definition urlsafe_b64decode :: "str \<Rightarrow> pyexc + bytes" where
  "urlsafe_b64decode s =
     (if list_all (\<lambda>c. c < 128) s
      then a2b_base64 (map urlsafe_decode_translation s)
      else Inl AsciiError)"

subsection \<open>The mirrored-entity hint\<close>

text \<open>
  The key of a metadata description (\<open>get_metadata_desc\<close>, lines 309 and 310): the
  URL-safe base64 text of the entity id's UTF-8 encoding.
\<close>

definition encode_entity_id :: "str \<Rightarrow> pyexc + str" where
  "encode_entity_id entity_id =
     (case encode_utf8 entity_id of
        Inl exc \<Rightarrow> Inl exc
      | Inr raw \<Rightarrow> decode_utf8 (urlsafe_b64encode raw))"

text \<open>What \<open>start_auth\<close> does with the hint (line 89): the inverse direction.\<close>

definition decode_entity_id :: "str \<Rightarrow> pyexc + str" where
  "decode_entity_id hint =
     (case urlsafe_b64decode hint of Inl exc \<Rightarrow> Inl exc | Inr raw \<Rightarrow> decode_utf8 raw)"

section \<open>Session state, context and responses\<close>

text \<open>
  Modelled from the spec: class \<open>State\<close> (\<open>satosa.state\<close>) is not among the sources.
  The spec describes it as an opaque key-value store that holds at most one pending
  relay-state value under the adapter's name: \<open>add\<close> stores a value under a key,
  replacing any previous one, \<open>remove\<close> deletes the key, and \<open>stored\<close> is what the
  store holds under a key.  \<open>get\<close> returns the value stored under a key; what it does
  for a key that was never added is said nowhere, so it is the parameter \<open>absent\<close>:
  \<open>None\<close> where \<open>get\<close> returns Python's \<open>None\<close>, and \<open>Some exc\<close> where it raises
  \<open>exc\<close>, as subscripting a dictionary raises \<open>KeyError\<close>.
\<close>

type_synonym state = "(string \<times> str) list"

definition state_add :: "state \<Rightarrow> string \<Rightarrow> str \<Rightarrow> state" where
  "state_add st key val = AList.update key val st"

definition stored :: "state \<Rightarrow> string \<Rightarrow> str option" where
  "stored st key = map_of st key"

definition state_get :: "pyexc option \<Rightarrow> state \<Rightarrow> string \<Rightarrow> pyexc + str option" where
  "state_get absent st key =
     (case stored st key of
        Some val \<Rightarrow> Inr (Some val)
      | None \<Rightarrow> (case absent of None \<Rightarrow> Inr None | Some exc \<Rightarrow> Inl exc))"

definition state_remove :: "state \<Rightarrow> string \<Rightarrow> state" where
  "state_remove st key = AList.delete key st"

text \<open>
  Modelled from the spec: class \<open>Context\<close> (\<open>satosa.context\<close>) is not among the
  sources.  The backend reads three of its attributes: the parsed request parameters,
  the session state and the internal data that carries the mirrored-entity hint, each
  a dictionary.
\<close>

record Context =
  request :: "(string \<times> str) list"
  state :: state
  internal_data :: "(string \<times> str) list"

text \<open>
  Modelled from the spec: \<open>satosa.internal_data\<close> is not among the sources.  An
  internal request may carry no identifying data; an internal response holds the user
  identifier, the attributes and the authentication information (class reference,
  instant, issuer).
\<close>

datatype internal_request = InternalRequest "str option" "str option"

datatype authentication_information = AuthenticationInformation str str str

record internal_response =
  auth_info :: authentication_information
  user_id :: "str option"
  attributes :: "(str \<times> str list) list"

definition InternalResponse :: "authentication_information \<Rightarrow> internal_response" where
  "InternalResponse ai = \<lparr>auth_info = ai, user_id = None, attributes = []\<rparr>"

definition set_user_id :: "internal_response \<Rightarrow> str \<Rightarrow> internal_response" where
  "set_user_id r uid = r\<lparr>user_id := Some uid\<rparr>"

definition add_attributes :: "internal_response \<Rightarrow> (str \<times> str list) list \<Rightarrow> internal_response" where
  "add_attributes r attrs = r\<lparr>attributes := attributes r @ attrs\<rparr>"

text \<open>
  Modelled from the spec: \<open>satosa.response\<close> is not among the sources.  A response is
  a redirect to a location or a body with headers.
\<close>

datatype response = SeeOther str | Response str "(string \<times> str) list"

text \<open>
  Modelled from the spec: \<open>satosa.exception\<close> is not among the sources.  What the
  backend raises is its own \<open>SATOSAAuthenticationError\<close>, surfaced with the session
  state and a short message (the chained cause of \<open>raise ... from\<close> is kept with
  it), or an exception of the library or of a collaborator that it lets through.
\<close>

datatype error =
    SATOSAAuthenticationError state string "pyexc option"
  | Raised pyexc

section \<open>The SAML client and the backend\<close>

text \<open>The constants of pysaml2 that the backend compares with.\<close>

definition BINDING_HTTP_REDIRECT :: str where
  "BINDING_HTTP_REDIRECT = str_of ''urn:oasis:names:tc:SAML:2.0:bindings:HTTP-Redirect''"

definition BINDING_HTTP_POST :: str where
  "BINDING_HTTP_POST = str_of ''urn:oasis:names:tc:SAML:2.0:bindings:HTTP-POST''"

definition UI_NAMESPACE :: str where
  "UI_NAMESPACE = str_of ''urn:oasis:names:tc:SAML:metadata:ui''"

datatype name_id_policy = NameIDPolicy str

text \<open>The result of \<open>apply_binding\<close>: the HTTP headers and the body.\<close>

record ht_args =
  headers :: "(string \<times> str) list"
  data :: str

text \<open>
  A parsed \<open>saml2.response.AuthnResponse\<close>, as far as \<open>_translate_response\<close> reads it:
  \<open>authn_info()\<close> (class reference, authorities, instant), the \<open>authn_instant\<close> of each
  authentication statement, the issuer, the subject and the attribute-value assertion.
\<close>

record saml_response =
  authn_info :: "(str \<times> str list \<times> str) list"
  authn_statement :: "str list"
  issuer_text :: str
  subject_text :: str
  ava :: "(str \<times> str list) list"

text \<open>
  Metadata as pysaml2 holds it is dynamically typed: nested dictionaries, lists and
  strings.  The operations are Python's: subscripting by a string key, \<open>dict.get\<close>
  with a default, \<open>in\<close>, and iteration.
\<close>

datatype pyval =
    PNone
  | PStr str
  | PList "pyval list"
  | PDict "(string \<times> pyval) list"

fun py_getitem :: "pyval \<Rightarrow> string \<Rightarrow> pyexc + pyval" where
  "py_getitem (PDict d) key = (case map_of d key of None \<Rightarrow> Inl KeyError | Some v \<Rightarrow> Inr v)"
| "py_getitem _ key = Inl TypeError"

fun py_get :: "pyval \<Rightarrow> string \<Rightarrow> pyval \<Rightarrow> pyexc + pyval" where
  "py_get (PDict d) key dflt = (case map_of d key of None \<Rightarrow> Inr dflt | Some v \<Rightarrow> Inr v)"
| "py_get _ key dflt = Inl AttributeError"

fun py_contains :: "string \<Rightarrow> pyval \<Rightarrow> pyexc + bool" where
  "py_contains key (PDict d) = Inr (key \<in> fst ` set d)"
| "py_contains key (PList xs) = Inr (PStr (str_of key) \<in> set xs)"
| "py_contains key (PStr s) = Inr (sublist (str_of key) s)"
| "py_contains key PNone = Inl TypeError"

fun py_iter :: "pyval \<Rightarrow> pyexc + pyval list" where
  "py_iter (PList xs) = Inr xs"
| "py_iter (PDict d) = Inr (map (\<lambda>kv. PStr (str_of (fst kv))) d)"
| "py_iter (PStr s) = Inr (map (\<lambda>c. PStr [c]) s)"
| "py_iter PNone = Inl TypeError"

text \<open>
  One metadata source of \<open>sp.metadata.metadata\<close>: \<open>entity_descr\<close> is \<open>None\<close> or a
  single descriptor (its entity id), \<open>entities_descr\<close> is \<open>None\<close> or a list of
  descriptors (their entity ids), and \<open>entity\<close> maps entity ids to their data.
\<close>

record metadata_file =
  entity_descr :: "str option"
  entities_descr :: "str list option"
  entity :: "(str \<times> pyval) list"

text \<open>
  \<open>self.sp\<close>, the pysaml2 client.  Its methods are collaborators: each is a function
  that returns a value or raises.  \<open>endpoints\<close> is
  \<open>sp.config.getattr("endpoints", "sp")\<close>, \<open>None\<close> when nothing is configured.
\<close>

record saml_client =
  identity_providers :: "str list"
  metadata :: "(str \<times> metadata_file) list"
  entityid :: str
  endpoints :: "(string \<times> (str \<times> str) list) list option"
  pick_binding :: "string \<Rightarrow> str list \<Rightarrow> string \<Rightarrow> str \<Rightarrow> pyexc + (str \<times> str)"
  create_authn_request :: "str \<Rightarrow> str \<Rightarrow> name_id_policy \<Rightarrow> pyexc + (str \<times> str)"
  apply_binding :: "str \<Rightarrow> str \<Rightarrow> str \<Rightarrow> str \<Rightarrow> pyexc + ht_args"
  parse_authn_request_response :: "str \<Rightarrow> str \<Rightarrow> pyexc + saml_response"
  create_discovery_service_request :: "str option \<Rightarrow> str \<Rightarrow> str \<Rightarrow> pyexc + str"

text \<open>
  \<open>self\<close>: the adapter's name, its configuration (\<open>config.get("hash_type")\<close>, the
  attribute profile, the supported bindings, the discovery service), the client, and
  the collaborators outside this module: the downstream callback, the attribute
  converter, \<open>get_saml_name_id_format\<close>, the token that \<open>rndstr()\<close> yields on this
  call, and what \<open>State.get\<close> does for a key that was never added (\<open>None\<close>: it
  returns \<open>None\<close>; \<open>Some exc\<close>: it raises \<open>exc\<close>).
\<close>

record backend =
  name :: string
  config_hash_type :: "str option"
  attribute_profile :: str
  bindings :: "str list"
  discosrv :: "str option"
  sp :: saml_client
  auth_callback_func :: "Context \<Rightarrow> internal_response \<Rightarrow> pyexc + response"
  to_internal :: "str \<Rightarrow> (str \<times> str list) list \<Rightarrow> pyexc + (str \<times> str list) list"
  get_saml_name_id_format :: "str \<Rightarrow> str"
  rndstr :: str
  state_get_absent :: "pyexc option"

text \<open>
  The calls a run makes to the client and to the downstream callback, in order, with
  what the callback is handed.
\<close>

datatype call =
    Pick_binding str
  | Create_authn_request str str
  | Apply_binding str str str
  | Parse_authn_request_response str str
  | Create_discovery_service_request str
  | Auth_callback_func Context internal_response

text \<open>
  A run of an endpoint: what it returns or raises, the session state as the backend
  leaves it (when it returns, raises, or hands the context over to the downstream
  callback), and the calls it made.
\<close>

record outcome =
  result :: "error + response"
  state_after :: state
  calls :: "call list"

definition raise :: "pyexc \<Rightarrow> Context \<Rightarrow> outcome" where
  "raise exc context = \<lparr>result = Inl (Raised exc), state_after = state context, calls = []\<rparr>"

section \<open>The backend's operations\<close>

text \<open>
  Modelled from the spec: \<open>satosa_logging\<close> (\<open>satosa.logging_util\<close>) is not among the
  sources.  The spec has it record diagnostics only, so the calls to it are left out:
  they change neither the session state nor the control flow.
\<close>

definition create_name_id_policy :: "backend \<Rightarrow> str \<Rightarrow> name_id_policy" where
  "create_name_id_policy self usr_id_hash_type =
     (let nameid_format = get_saml_name_id_format self usr_id_hash_type
      in NameIDPolicy nameid_format)"

text \<open>
  The request arguments of \<open>authn_request\<close> (lines 129 and 130): the name id policy
  for the configured hash type, \<open>persistent\<close> when none is configured.
\<close>

definition req_args :: "backend \<Rightarrow> name_id_policy" where
  "req_args self =
     (let hash_type = (case config_hash_type self of
                         None \<Rightarrow> str_of ''persistent'' | Some h \<Rightarrow> h)
      in create_name_id_policy self hash_type)"

text \<open>
  The \<open>try\<close> block of \<open>authn_request\<close> (lines 134 to 150): the calls made so far and
  either the exception that left the block or the binding picked, the serialised
  request and the relay state generated for it.
\<close>

definition authn_request_try ::
  "backend \<Rightarrow> str \<Rightarrow> name_id_policy \<Rightarrow> call list \<times> (pyexc + (str \<times> ht_args \<times> str))" where
  "authn_request_try self entity_id args =
     (case pick_binding (sp self) ''single_sign_on_service'' (bindings self) ''idpsso'' entity_id of
        Inl exc \<Rightarrow> ([Pick_binding entity_id], Inl exc)
      | Inr (binding, destination) \<Rightarrow>
          (case endpoints (sp self) of
             None \<Rightarrow> ([Pick_binding entity_id], Inl TypeError)
           | Some eps \<Rightarrow>
               (case map_of eps ''assertion_consumer_service'' of
                  None \<Rightarrow> ([Pick_binding entity_id], Inl KeyError)
                | Some [] \<Rightarrow> ([Pick_binding entity_id], Inl IndexError)
                | Some ((endp, return_binding) # _) \<Rightarrow>
                    (case create_authn_request (sp self) destination return_binding args of
                       Inl exc \<Rightarrow>
                         ([Pick_binding entity_id,
                           Create_authn_request destination return_binding], Inl exc)
                     | Inr (req_id, req) \<Rightarrow>
                         (let relay_state = rndstr self;
                              cs = [Pick_binding entity_id,
                                    Create_authn_request destination return_binding,
                                    Apply_binding binding destination relay_state]
                          in case apply_binding (sp self) binding req destination relay_state of
                               Inl exc \<Rightarrow> (cs, Inl exc)
                             | Inr ht \<Rightarrow> (cs, Inr (binding, ht, relay_state)))))))"

text \<open>
  The \<open>for ... else\<close> loop over the headers (lines 159 to 165): the value of the first
  header named \<open>Location\<close>, or nothing when the loop runs to its \<open>else\<close>.
\<close>

fun location_header :: "(string \<times> str) list \<Rightarrow> str option" where
  "location_header [] = None"
| "location_header ((param, v) # rest) =
     (if param = ''Location'' then Some v else location_header rest)"

definition authn_request :: "backend \<Rightarrow> Context \<Rightarrow> str \<Rightarrow> internal_request \<Rightarrow> outcome" where
  "authn_request self context entity_id internal_req =
     (let st = state context
      in case authn_request_try self entity_id (req_args self) of
           (cs, Inl exc) \<Rightarrow>
             \<lparr>result = Inl (SATOSAAuthenticationError st
                 ''Failed to construct the AuthnRequest'' (Some exc)),
              state_after = st, calls = cs\<rparr>
         | (cs, Inr (binding, ht, relay_state)) \<Rightarrow>
             (let st' = state_add st (name self) relay_state
              in if binding = BINDING_HTTP_REDIRECT then
                   (case location_header (headers ht) of
                      Some v \<Rightarrow> \<lparr>result = Inr (SeeOther v), state_after = st', calls = cs\<rparr>
                    | None \<Rightarrow>
                        \<lparr>result = Inl (SATOSAAuthenticationError st' ''Parameter error'' None),
                         state_after = st', calls = cs\<rparr>)
                 else \<lparr>result = Inr (Response (data ht) (headers ht)),
                       state_after = st', calls = cs\<rparr>))"

definition disco_query :: "backend \<Rightarrow> Context \<Rightarrow> internal_request \<Rightarrow> outcome" where
  "disco_query self context internal_req =
     (let eid = entityid (sp self)
      in case endpoints (sp self) of
           None \<Rightarrow> raise TypeError context
         | Some eps \<Rightarrow>
             (case map_of eps ''discovery_response'' of
                None \<Rightarrow> raise KeyError context
              | Some [] \<Rightarrow> raise IndexError context
              | Some ((ret, _) # _) \<Rightarrow>
                  (case create_discovery_service_request (sp self) (discosrv self) eid ret of
                     Inl exc \<Rightarrow>
                       \<lparr>result = Inl (Raised exc), state_after = state context,
                        calls = [Create_discovery_service_request ret]\<rparr>
                   | Inr loc \<Rightarrow>
                       \<lparr>result = Inr (SeeOther loc), state_after = state context,
                        calls = [Create_discovery_service_request ret]\<rparr>)))"

text \<open>
  The \<open>except KeyError\<close> clause of \<open>start_auth\<close> (lines 91 and 92), applied to the
  outcome of its \<open>try\<close> block: a \<open>KeyError\<close> goes on with \<open>disco_query\<close>, anything else
  stands as it is.
\<close>

definition start_auth_except ::
  "backend \<Rightarrow> Context \<Rightarrow> internal_request \<Rightarrow> outcome \<Rightarrow> outcome" where
  "start_auth_except self context internal_req r =
     (if result r = Inl (Raised KeyError) then
        (let d = disco_query self (context\<lparr>state := state_after r\<rparr>) internal_req
         in d\<lparr>calls := calls r @ calls d\<rparr>)
      else r)"

definition start_auth :: "backend \<Rightarrow> Context \<Rightarrow> internal_request \<Rightarrow> outcome" where
  "start_auth self context internal_req =
     (let idps = identity_providers (sp self)
      in if length idps = 1 then authn_request self context (idps ! 0) internal_req
         else start_auth_except self context internal_req
           (case map_of (internal_data context) ''mirror.target_entity_id'' of
              None \<Rightarrow> raise KeyError context
            | Some hint \<Rightarrow>
                (case decode_entity_id hint of
                   Inl exc \<Rightarrow> raise exc context
                 | Inr entity_id \<Rightarrow> authn_request self context entity_id internal_req)))"

definition translate_response :: "backend \<Rightarrow> saml_response \<Rightarrow> state \<Rightarrow> pyexc + internal_response" where
  "translate_response self resp st =
     (case authn_info resp of
        [] \<Rightarrow> Inl IndexError
      | (auth_class_ref, _) # _ \<Rightarrow>
          (case authn_statement resp of
             [] \<Rightarrow> Inl IndexError
           | timestamp # _ \<Rightarrow>
               (let issuer = issuer_text resp;
                    internal_resp =
                      set_user_id
                        (InternalResponse (AuthenticationInformation auth_class_ref timestamp issuer))
                        (subject_text resp)
                in case to_internal self (attribute_profile self) (ava resp) of
                     Inl exc \<Rightarrow> Inl exc
                   | Inr attrs \<Rightarrow> Inr (add_attributes internal_resp attrs))))"

definition authn_response :: "backend \<Rightarrow> Context \<Rightarrow> str \<Rightarrow> outcome" where
  "authn_response self context binding =
     (let st = state context
      in case map_of (request context) ''SAMLResponse'' of
           None \<Rightarrow> raise KeyError context
         | Some payload \<Rightarrow>
             if payload = [] then
               \<lparr>result = Inl (SATOSAAuthenticationError st ''Missing Response'' None),
                state_after = st, calls = []\<rparr>
             else
               (case parse_authn_request_response (sp self) payload binding of
                  Inl err \<Rightarrow>
                    \<lparr>result = Inl (SATOSAAuthenticationError st
                        ''Failed to parse authn request'' (Some err)),
                     state_after = st,
                     calls = [Parse_authn_request_response payload binding]\<rparr>
                | Inr resp \<Rightarrow>
                    (case state_get (state_get_absent self) st (name self) of
                       Inl exc \<Rightarrow>
                         \<lparr>result = Inl (Raised exc), state_after = st,
                          calls = [Parse_authn_request_response payload binding]\<rparr>
                     | Inr token \<Rightarrow>
                         (case map_of (request context) ''RelayState'' of
                            None \<Rightarrow>
                              \<lparr>result = Inl (Raised KeyError), state_after = st,
                               calls = [Parse_authn_request_response payload binding]\<rparr>
                          | Some relay_state \<Rightarrow>
                              if token \<noteq> Some relay_state then
                                \<lparr>result = Inl (SATOSAAuthenticationError st
                                    ''State did not match relay state'' None),
                                 state_after = st,
                                 calls = [Parse_authn_request_response payload binding]\<rparr>
                              else
                                (let st' = state_remove st (name self);
                                     context' = context\<lparr>state := st'\<rparr>
                                 in case translate_response self resp st' of
                                      Inl exc \<Rightarrow>
                                        \<lparr>result = Inl (Raised exc), state_after = st',
                                         calls = [Parse_authn_request_response payload binding]\<rparr>
                                    | Inr internal_resp \<Rightarrow>
                                        \<lparr>result =
                                           (case auth_callback_func self context' internal_resp of
                                              Inl exc \<Rightarrow> Inl (Raised exc)
                                            | Inr r \<Rightarrow> Inr r),
                                         state_after = st',
                                         calls = [Parse_authn_request_response payload binding,
                                                  Auth_callback_func context' internal_resp]\<rparr>)))))"

definition disco_response :: "backend \<Rightarrow> Context \<Rightarrow> outcome" where
  "disco_response self context =
     (let info = request context;
          st = state context
      in case map_of info ''entityID'' of
           None \<Rightarrow>
             \<lparr>result = Inl (SATOSAAuthenticationError st ''No IDP chosen'' (Some KeyError)),
              state_after = st, calls = []\<rparr>
         | Some entity_id \<Rightarrow>
             (let request_info = InternalRequest None None
              in authn_request self context entity_id request_info))"

section \<open>Metadata descriptions\<close>

text \<open>
  Modelled from the spec: the description classes (\<open>satosa.metadata_creation.description\<close>)
  are not among the sources.  A description is keyed by the encoded entity id and holds
  an optional organization (names, display names and URLs, each with a language), a
  sequence of contact persons (type, e-mail addresses, given name, surname) and an
  optional UI info (descriptions, display names, and logos with width, height and
  language).  Every \<open>add_\<close> method appends, every \<open>set_\<close> method replaces.
\<close>

record OrganizationDesc =
  org_name :: "(pyval \<times> pyval) list"
  org_display_name :: "(pyval \<times> pyval) list"
  org_url :: "(pyval \<times> pyval) list"

record ContactPersonDesc =
  contact_type :: "pyval option"
  email_address :: "pyval list"
  given_name :: "pyval option"
  sur_name :: "pyval option"

record UIInfoDesc =
  ui_description :: "(pyval \<times> pyval) list"
  ui_display_name :: "(pyval \<times> pyval) list"
  ui_logo :: "(pyval \<times> pyval \<times> pyval \<times> pyval) list"

record MetadataDescription =
  desc_entity_id :: str
  desc_organization :: "OrganizationDesc option"
  desc_contact_person :: "ContactPersonDesc list"
  desc_ui_info :: "UIInfoDesc option"

definition new_MetadataDescription :: "str \<Rightarrow> MetadataDescription" where
  "new_MetadataDescription key =
     \<lparr>desc_entity_id = key, desc_organization = None, desc_contact_person = [],
      desc_ui_info = None\<rparr>"

definition new_ContactPersonDesc :: ContactPersonDesc where
  "new_ContactPersonDesc =
     \<lparr>contact_type = None, email_address = [], given_name = None, sur_name = None\<rparr>"

definition new_UIInfoDesc :: UIInfoDesc where
  "new_UIInfoDesc = \<lparr>ui_description = [], ui_display_name = [], ui_logo = []\<rparr>"

definition set_organization :: "MetadataDescription \<Rightarrow> OrganizationDesc \<Rightarrow> MetadataDescription" where
  "set_organization description org = description\<lparr>desc_organization := Some org\<rparr>"

definition add_contact_person :: "MetadataDescription \<Rightarrow> ContactPersonDesc \<Rightarrow> MetadataDescription" where
  "add_contact_person description person =
     description\<lparr>desc_contact_person := desc_contact_person description @ [person]\<rparr>"

definition set_ui_info :: "MetadataDescription \<Rightarrow> UIInfoDesc \<Rightarrow> MetadataDescription" where
  "set_ui_info description ui = description\<lparr>desc_ui_info := Some ui\<rparr>"

text \<open>
  The loops \<open>for x in info.get(key, []): target.add(x["text"], x["lang"])\<close>: the pairs
  in order, or the first exception.  The object they fill is local to its \<open>try\<close>
  block and dropped when the block is left by an exception, so collecting the pairs
  and building the object at the end is the same.
\<close>

fun text_lang_items :: "pyval list \<Rightarrow> pyexc + (pyval \<times> pyval) list" where
  "text_lang_items [] = Inr []"
| "text_lang_items (x # xs) =
     (case py_getitem x ''text'' of
        Inl exc \<Rightarrow> Inl exc
      | Inr t \<Rightarrow>
          (case py_getitem x ''lang'' of
             Inl exc \<Rightarrow> Inl exc
           | Inr l \<Rightarrow>
               (case text_lang_items xs of
                  Inl exc \<Rightarrow> Inl exc
                | Inr rest \<Rightarrow> Inr ((t, l) # rest))))"

definition for_text_lang :: "pyval \<Rightarrow> string \<Rightarrow> pyexc + (pyval \<times> pyval) list" where
  "for_text_lang info key =
     (case py_get info key (PList []) of
        Inl exc \<Rightarrow> Inl exc
      | Inr v \<Rightarrow> (case py_iter v of Inl exc \<Rightarrow> Inl exc | Inr xs \<Rightarrow> text_lang_items xs))"

fun logo_items :: "pyval list \<Rightarrow> pyexc + (pyval \<times> pyval \<times> pyval \<times> pyval) list" where
  "logo_items [] = Inr []"
| "logo_items (logo # xs) =
     (case py_getitem logo ''text'' of
        Inl exc \<Rightarrow> Inl exc
      | Inr t \<Rightarrow>
          (case py_getitem logo ''width'' of
             Inl exc \<Rightarrow> Inl exc
           | Inr w \<Rightarrow>
               (case py_getitem logo ''height'' of
                  Inl exc \<Rightarrow> Inl exc
                | Inr h \<Rightarrow>
                    (case py_getitem logo ''lang'' of
                       Inl exc \<Rightarrow> Inl exc
                     | Inr l \<Rightarrow>
                         (case logo_items xs of
                            Inl exc \<Rightarrow> Inl exc
                          | Inr rest \<Rightarrow> Inr ((t, w, h, l) # rest))))))"

definition for_logo :: "pyval \<Rightarrow> pyexc + (pyval \<times> pyval \<times> pyval \<times> pyval) list" where
  "for_logo element =
     (case py_get element ''logo'' (PList []) of
        Inl exc \<Rightarrow> Inl exc
      | Inr v \<Rightarrow> (case py_iter v of Inl exc \<Rightarrow> Inl exc | Inr xs \<Rightarrow> logo_items xs))"

subsection \<open>Organization (lines 313 to 327)\<close>

definition organization_desc :: "pyval \<Rightarrow> pyexc + OrganizationDesc" where
  "organization_desc organization_info =
     (case for_text_lang organization_info ''organization_name'' of
        Inl exc \<Rightarrow> Inl exc
      | Inr names \<Rightarrow>
          (case for_text_lang organization_info ''organization_display_name'' of
             Inl exc \<Rightarrow> Inl exc
           | Inr display_names \<Rightarrow>
               (case for_text_lang organization_info ''organization_url'' of
                  Inl exc \<Rightarrow> Inl exc
                | Inr urls \<Rightarrow>
                    Inr \<lparr>org_name = names, org_display_name = display_names,
                         org_url = urls\<rparr>)))"

text \<open>The bare \<open>except:\<close> swallows every exception; the description is then as before.\<close>

definition add_organization_info ::
  "(str \<times> pyval) list \<Rightarrow> str \<Rightarrow> MetadataDescription \<Rightarrow> MetadataDescription" where
  "add_organization_info ent entity_id description =
     (case map_of ent entity_id of
        None \<Rightarrow> description
      | Some e \<Rightarrow>
          (case py_getitem e ''organization'' of
             Inl exc \<Rightarrow> description
           | Inr organization_info \<Rightarrow>
               (case organization_desc organization_info of
                  Inl exc \<Rightarrow> description
                | Inr org \<Rightarrow> set_organization description org)))"

subsection \<open>Contact persons (lines 330 to 346)\<close>

text \<open>The body of the loop up to \<open>add_contact_person\<close>: the person built from one entry.\<close>

fun email_items :: "pyval list \<Rightarrow> pyexc + pyval list" where
  "email_items [] = Inr []"
| "email_items (address # xs) =
     (case py_getitem address ''text'' of
        Inl exc \<Rightarrow> Inl exc
      | Inr t \<Rightarrow> (case email_items xs of Inl exc \<Rightarrow> Inl exc | Inr rest \<Rightarrow> Inr (t # rest)))"

definition text_if_present :: "pyval \<Rightarrow> string \<Rightarrow> pyexc + pyval option" where
  "text_if_present cont_pers key =
     (case py_contains key cont_pers of
        Inl exc \<Rightarrow> Inl exc
      | Inr False \<Rightarrow> Inr None
      | Inr True \<Rightarrow>
          (case py_getitem cont_pers key of
             Inl exc \<Rightarrow> Inl exc
           | Inr v \<Rightarrow>
               (case py_getitem v ''text'' of Inl exc \<Rightarrow> Inl exc | Inr t \<Rightarrow> Inr (Some t))))"

definition contact_person_desc :: "pyval \<Rightarrow> pyexc + ContactPersonDesc" where
  "contact_person_desc cont_pers =
     (case (case py_contains ''contact_type'' cont_pers of
              Inl exc \<Rightarrow> Inl exc
            | Inr False \<Rightarrow> Inr None
            | Inr True \<Rightarrow>
                (case py_getitem cont_pers ''contact_type'' of
                   Inl exc \<Rightarrow> Inl exc
                 | Inr v \<Rightarrow> Inr (Some v))) of
        Inl exc \<Rightarrow> Inl exc
      | Inr ct \<Rightarrow>
          (case py_get cont_pers ''email_address'' (PList []) of
             Inl exc \<Rightarrow> Inl exc
           | Inr addresses \<Rightarrow>
               (case py_iter addresses of
                  Inl exc \<Rightarrow> Inl exc
                | Inr xs \<Rightarrow>
                    (case email_items xs of
                       Inl exc \<Rightarrow> Inl exc
                     | Inr emails \<Rightarrow>
                         (case text_if_present cont_pers ''given_name'' of
                            Inl exc \<Rightarrow> Inl exc
                          | Inr gn \<Rightarrow>
                              (case text_if_present cont_pers ''sur_name'' of
                                 Inl exc \<Rightarrow> Inl exc
                               | Inr sn \<Rightarrow>
                                   Inr (new_ContactPersonDesc
                                        \<lparr>contact_type := ct, email_address := emails,
                                         given_name := gn, sur_name := sn\<rparr>)))))))"

text \<open>
  The loop over the contact persons changes the description as it goes: the result is
  the description as the loop left it, and the exception that ended it, if any.
\<close>

fun add_contact_persons ::
  "pyval list \<Rightarrow> MetadataDescription \<Rightarrow> MetadataDescription \<times> pyexc option" where
  "add_contact_persons [] description = (description, None)"
| "add_contact_persons (cont_pers # rest) description =
     (case contact_person_desc cont_pers of
        Inl exc \<Rightarrow> (description, Some exc)
      | Inr person \<Rightarrow> add_contact_persons rest (add_contact_person description person))"

text \<open>\<open>except KeyError: pass\<close>: a \<open>KeyError\<close> ends the block, any other exception goes on.\<close>

definition except_KeyError ::
  "MetadataDescription \<times> pyexc option \<Rightarrow> pyexc + MetadataDescription" where
  "except_KeyError r =
     (case r of
        (description, None) \<Rightarrow> Inr description
      | (description, Some exc) \<Rightarrow> if exc = KeyError then Inr description else Inl exc)"

definition add_contact_person_info ::
  "(str \<times> pyval) list \<Rightarrow> str \<Rightarrow> MetadataDescription \<Rightarrow> pyexc + MetadataDescription" where
  "add_contact_person_info ent entity_id description =
     except_KeyError
       (case map_of ent entity_id of
          None \<Rightarrow> (description, Some KeyError)
        | Some e \<Rightarrow>
            (case py_getitem e ''contact_person'' of
               Inl exc \<Rightarrow> (description, Some exc)
             | Inr contact_persons \<Rightarrow>
                 (case py_iter contact_persons of
                    Inl exc \<Rightarrow> (description, Some exc)
                  | Inr xs \<Rightarrow> add_contact_persons xs description)))"

subsection \<open>UI info (lines 349 to 368)\<close>

fun add_ui_elements :: "pyval list \<Rightarrow> UIInfoDesc \<Rightarrow> pyexc + UIInfoDesc" where
  "add_ui_elements [] ui = Inr ui"
| "add_ui_elements (element # rest) ui =
     (case py_getitem element ''__class__'' of
        Inl exc \<Rightarrow> Inl exc
      | Inr cls \<Rightarrow>
          if cls \<noteq> PStr (UI_NAMESPACE @ str_of ''&UIInfo'') then add_ui_elements rest ui
          else
            (case for_text_lang element ''description'' of
               Inl exc \<Rightarrow> Inl exc
             | Inr descs \<Rightarrow>
                 (case for_text_lang element ''display_name'' of
                    Inl exc \<Rightarrow> Inl exc
                  | Inr names \<Rightarrow>
                      (case for_logo element of
                         Inl exc \<Rightarrow> Inl exc
                       | Inr logos \<Rightarrow>
                           add_ui_elements rest
                             (ui\<lparr>ui_description := ui_description ui @ descs,
                                 ui_display_name := ui_display_name ui @ names,
                                 ui_logo := ui_logo ui @ logos\<rparr>)))))"

definition ui_info_desc :: "pyval \<Rightarrow> pyexc + UIInfoDesc" where
  "ui_info_desc idpsso_desc =
     (case py_getitem idpsso_desc ''extensions'' of
        Inl exc \<Rightarrow> Inl exc
      | Inr extensions \<Rightarrow>
          (case py_getitem extensions ''extension_elements'' of
             Inl exc \<Rightarrow> Inl exc
           | Inr ui_elements \<Rightarrow>
               (case py_iter ui_elements of
                  Inl exc \<Rightarrow> Inl exc
                | Inr xs \<Rightarrow> add_ui_elements xs new_UIInfoDesc)))"

fun set_ui_infos ::
  "pyval list \<Rightarrow> MetadataDescription \<Rightarrow> MetadataDescription \<times> pyexc option" where
  "set_ui_infos [] description = (description, None)"
| "set_ui_infos (idpsso_desc # rest) description =
     (case ui_info_desc idpsso_desc of
        Inl exc \<Rightarrow> (description, Some exc)
      | Inr ui \<Rightarrow> set_ui_infos rest (set_ui_info description ui))"

definition add_ui_info ::
  "(str \<times> pyval) list \<Rightarrow> str \<Rightarrow> MetadataDescription \<Rightarrow> pyexc + MetadataDescription" where
  "add_ui_info ent entity_id description =
     except_KeyError
       (case map_of ent entity_id of
          None \<Rightarrow> (description, Some KeyError)
        | Some e \<Rightarrow>
            (case py_getitem e ''idpsso_descriptor'' of
               Inl exc \<Rightarrow> (description, Some exc)
             | Inr idpsso_descriptor \<Rightarrow>
                 (case py_iter idpsso_descriptor of
                    Inl exc \<Rightarrow> (description, Some exc)
                  | Inr xs \<Rightarrow> set_ui_infos xs description)))"

subsection \<open>The listing (lines 295 to 371)\<close>

definition describe_entity :: "(str \<times> pyval) list \<Rightarrow> str \<Rightarrow> pyexc + MetadataDescription" where
  "describe_entity ent entity_id =
     (case encode_entity_id entity_id of
        Inl exc \<Rightarrow> Inl exc
      | Inr key \<Rightarrow>
          (let description = add_organization_info ent entity_id (new_MetadataDescription key)
           in case add_contact_person_info ent entity_id description of
                Inl exc \<Rightarrow> Inl exc
              | Inr description' \<Rightarrow> add_ui_info ent entity_id description'))"

fun describe_entities :: "(str \<times> pyval) list \<Rightarrow> str list \<Rightarrow> pyexc + MetadataDescription list" where
  "describe_entities ent [] = Inr []"
| "describe_entities ent (entity_id # rest) =
     (case describe_entity ent entity_id of
        Inl exc \<Rightarrow> Inl exc
      | Inr description \<Rightarrow>
          (case describe_entities ent rest of
             Inl exc \<Rightarrow> Inl exc
           | Inr ds \<Rightarrow> Inr (description # ds)))"

definition entity_ids_of :: "metadata_file \<Rightarrow> pyexc + str list" where
  "entity_ids_of metadata_file =
     (case entity_descr metadata_file of
        None \<Rightarrow>
          (case entities_descr metadata_file of
             None \<Rightarrow> Inl AttributeError
           | Some entity_descriptor \<Rightarrow> Inr entity_descriptor)
      | Some entity_id \<Rightarrow> Inr [entity_id])"

fun describe_files :: "metadata_file list \<Rightarrow> pyexc + MetadataDescription list" where
  "describe_files [] = Inr []"
| "describe_files (metadata_file # rest) =
     (case entity_ids_of metadata_file of
        Inl exc \<Rightarrow> Inl exc
      | Inr entity_ids \<Rightarrow>
          (case describe_entities (entity metadata_file) entity_ids of
             Inl exc \<Rightarrow> Inl exc
           | Inr ds \<Rightarrow>
               (case describe_files rest of
                  Inl exc \<Rightarrow> Inl exc
                | Inr ds' \<Rightarrow> Inr (ds @ ds'))))"

text \<open>
  The keys of a dictionary are distinct, so looking each key of
  \<open>sp.metadata.metadata\<close> up again yields the sources in order.
\<close>

definition get_metadata_desc :: "backend \<Rightarrow> pyexc + MetadataDescription list" where
  "get_metadata_desc self = describe_files (map snd (metadata (sp self)))"

section \<open>An example deployment\<close>

text \<open>
  A backend named \<open>saml\<close> with two identity providers, whose collaborators all
  succeed: the redirect binding is picked, the serialised request carries a
  \<open>Location\<close> header, every payload parses, and the callback answers.  Its session
  state raises \<open>KeyError\<close> when asked for a key that was never added.
\<close>

definition demo_response :: saml_response where
  "demo_response =
     \<lparr>authn_info = [(str_of ''pw'', [], str_of ''now'')], authn_statement = [str_of ''now''],
      issuer_text = str_of ''idp1'', subject_text = str_of ''u1'', ava = []\<rparr>"

definition demo_sp :: saml_client where
  "demo_sp =
     \<lparr>identity_providers = [str_of ''idp1'', str_of ''idp2''],
      metadata = [],
      entityid = str_of ''sp'',
      endpoints = Some [(''assertion_consumer_service'', [(str_of ''/acs'', BINDING_HTTP_POST)]),
                        (''discovery_response'', [(str_of ''/disco'', str_of ''disco'')])],
      pick_binding = (\<lambda>service bs descr_type entity_id. Inr (BINDING_HTTP_REDIRECT, str_of ''sso'')),
      create_authn_request = (\<lambda>destination binding policy. Inr (str_of ''id1'', str_of ''req'')),
      apply_binding = (\<lambda>binding req destination relay_state.
         Inr \<lparr>headers = [(''Location'', str_of ''loc'')], data = []\<rparr>),
      parse_authn_request_response = (\<lambda>payload binding. Inr demo_response),
      create_discovery_service_request = (\<lambda>srv eid ret. Inr (str_of ''ds''))\<rparr>"

definition demo_backend :: backend where
  "demo_backend =
     \<lparr>name = ''saml'',
      config_hash_type = None,
      attribute_profile = str_of ''saml'',
      bindings = [BINDING_HTTP_REDIRECT, BINDING_HTTP_POST],
      discosrv = Some (str_of ''ds''),
      sp = demo_sp,
      auth_callback_func = (\<lambda>context internal_resp. Inr (Response [] [])),
      to_internal = (\<lambda>profile a. Inr a),
      get_saml_name_id_format = (\<lambda>h. h),
      rndstr = str_of ''tok'',
      state_get_absent = Some KeyError\<rparr>"

text \<open>
  Two callbacks to the assertion consumer service while the session holds the token
  \<open>Y\<close>: one echoes \<open>X\<close>, the other echoes \<open>Y\<close>.
\<close>

definition mismatch_context :: Context where
  "mismatch_context =
     \<lparr>request = [(''SAMLResponse'', str_of ''R''), (''RelayState'', str_of ''X'')],
      state = [(''saml'', str_of ''Y'')], internal_data = []\<rparr>"

definition match_context :: Context where
  "match_context =
     \<lparr>request = [(''SAMLResponse'', str_of ''R''), (''RelayState'', str_of ''Y'')],
      state = [(''saml'', str_of ''Y'')], internal_data = []\<rparr>"

text \<open>A callback that echoes \<open>Y\<close> to a session for which no token was ever issued.\<close>

definition fresh_context :: Context where
  "fresh_context =
     \<lparr>request = [(''SAMLResponse'', str_of ''R''), (''RelayState'', str_of ''Y'')],
      state = [], internal_data = []\<rparr>"

text \<open>
  Variants of the deployment: the client knows no binding for the target, the
  serialised request carries no \<open>Location\<close> header, and the federation has a single
  identity provider.
\<close>

definition failing_backend :: backend where
  "failing_backend =
     demo_backend\<lparr>sp := demo_sp\<lparr>pick_binding :=
       (\<lambda>service bs descr_type entity_id. Inl (LibraryError ''UnknownSystemEntity''))\<rparr>\<rparr>"

definition headerless_backend :: backend where
  "headerless_backend =
     demo_backend\<lparr>sp := demo_sp\<lparr>apply_binding :=
       (\<lambda>binding req destination relay_state.
          Inr \<lparr>headers = [(''Cache-Control'', str_of ''no-cache'')], data = []\<rparr>)\<rparr>\<rparr>"

definition single_idp_backend :: backend where
  "single_idp_backend = demo_backend\<lparr>sp := demo_sp\<lparr>identity_providers := [str_of ''idp1'']\<rparr>\<rparr>"

text \<open>
  Contexts at the start of an attempt: a stale token \<open>old\<close> is pending; nothing is
  pending and no hint is given; the hint is \<open>A\<close>, which is not base64 text.
\<close>

definition pending_context :: Context where
  "pending_context =
     \<lparr>request = [], state = [(''saml'', str_of ''old'')], internal_data = []\<rparr>"

definition empty_context :: Context where
  "empty_context = \<lparr>request = [], state = [], internal_data = []\<rparr>"

definition bad_hint_context :: Context where
  "bad_hint_context =
     \<lparr>request = [], state = [],
      internal_data = [(''mirror.target_entity_id'', str_of ''A'')]\<rparr>"

text \<open>
  Metadata for the listing.  Entity \<open>a\<close> has an organization and nothing else.  Entity
  \<open>b\<close> has two contact persons, the second without the text of its given name, and a
  UI info whose logo has no width.  Entity \<open>c\<close> has a contact person whose e-mail
  addresses are plain strings instead of elements.
\<close>

definition text_lang :: "string \<Rightarrow> string \<Rightarrow> pyval" where
  "text_lang t l = PDict [(''text'', PStr (str_of t)), (''lang'', PStr (str_of l))]"

definition entity_a :: pyval where
  "entity_a =
     PDict [(''organization'',
             PDict [(''organization_name'', PList [text_lang ''Org'' ''en''])])]"

definition entity_b :: pyval where
  "entity_b =
     PDict [(''contact_person'',
             PList [PDict [(''contact_type'', PStr (str_of ''technical'')),
                           (''email_address'', PList [PDict [(''text'', PStr (str_of ''x@b''))]])],
                    PDict [(''given_name'', PDict [])]]),
            (''idpsso_descriptor'',
             PList [PDict [(''extensions'',
               PDict [(''extension_elements'',
                 PList [PDict [(''__class__'', PStr (UI_NAMESPACE @ str_of ''&UIInfo'')),
                               (''display_name'', PList [text_lang ''B'' ''en'']),
                               (''logo'', PList [PDict [(''text'', PStr (str_of ''l.png'')),
                                                        (''height'', PStr (str_of ''16''))]])]])])]])]"


definition good_metadata :: "(str \<times> metadata_file) list" where
  "good_metadata =
     [(str_of ''one.xml'',
       \<lparr>entity_descr = Some (str_of ''a''), entities_descr = None,
        entity = [(str_of ''a'', entity_a)]\<rparr>),
      (str_of ''many.xml'',
       \<lparr>entity_descr = None, entities_descr = Some [str_of ''b''],
        entity = [(str_of ''b'', entity_b)]\<rparr>)]"


definition listing_backend :: "(str \<times> metadata_file) list \<Rightarrow> backend" where
  "listing_backend md = demo_backend\<lparr>sp := demo_sp\<lparr>metadata := md\<rparr>\<rparr>"

text \<open>
  The descriptions expected for \<open>a\<close> and \<open>b\<close>: of \<open>b\<close>'s contact persons only the
  first, which was added before the second raised \<open>KeyError\<close>, and no UI info.
\<close>

definition description_a :: MetadataDescription where
  "description_a =
     \<lparr>desc_entity_id = str_of ''YQ=='',
      desc_organization =
        Some \<lparr>org_name = [(PStr (str_of ''Org''), PStr (str_of ''en''))],
              org_display_name = [], org_url = []\<rparr>,
      desc_contact_person = [], desc_ui_info = None\<rparr>"

definition description_b :: MetadataDescription where
  "description_b =
     \<lparr>desc_entity_id = str_of ''Yg=='',
      desc_organization = None,
      desc_contact_person =
        [\<lparr>contact_type = Some (PStr (str_of ''technical'')),
          email_address = [PStr (str_of ''x@b'')], given_name = None, sur_name = None\<rparr>],
      desc_ui_info = None\<rparr>"

section \<open>The codecs are inverse to each other\<close>

subsection \<open>UTF-8\<close>

lemma decode_utf8_two:
  "2 \<le> q \<Longrightarrow> q \<le> 31 \<Longrightarrow> r \<le> 63 \<Longrightarrow>
   decode_utf8 ((0xC0 + q) # (0x80 + r) # bs) = emit (q * 64 + r) (decode_utf8 bs)"
  by (simp add: is_continuation_def)

lemma decode_utf8_three:
  "q \<le> 15 \<Longrightarrow> r \<le> 63 \<Longrightarrow> s \<le> 63 \<Longrightarrow> (q = 0 \<longrightarrow> 32 \<le> r) \<Longrightarrow> (q = 13 \<longrightarrow> r < 32) \<Longrightarrow>
   decode_utf8 ((0xE0 + q) # (0x80 + r) # (0x80 + s) # bs)
   = emit (q * 4096 + r * 64 + s) (decode_utf8 bs)"
  by (auto simp: is_continuation_def)

lemma decode_utf8_four:
  "q \<le> 4 \<Longrightarrow> r \<le> 63 \<Longrightarrow> s \<le> 63 \<Longrightarrow> t \<le> 63 \<Longrightarrow> (q = 0 \<longrightarrow> 16 \<le> r) \<Longrightarrow> (q = 4 \<longrightarrow> r < 16) \<Longrightarrow>
   decode_utf8 ((0xF0 + q) # (0x80 + r) # (0x80 + s) # (0x80 + t) # bs)
   = emit (q * 262144 + r * 4096 + s * 64 + t) (decode_utf8 bs)"
  by (auto simp: is_continuation_def)

lemma div_4096: "(c::nat) div 4096 = c div 64 div 64"
  by (simp add: div_mult2_eq)

lemma div_262144: "(c::nat) div 262144 = c div 64 div 64 div 64"
  by (simp add: div_mult2_eq)

lemma split64: "(c::nat) div 64 * 64 + c mod 64 = c"
  by simp

lemma decode_utf8_2:
  assumes "0x80 \<le> c" "c < 0x800"
  shows "decode_utf8 ((0xC0 + c div 64) # (0x80 + c mod 64) # bs) = emit c (decode_utf8 bs)"
proof -
  have "2 \<le> c div 64" "c div 64 \<le> 31" "c mod 64 \<le> 63" using assms by arith+
  from decode_utf8_two [OF this, of bs] show ?thesis by (simp only: split64)
qed

lemma decode_utf8_3:
  assumes "0x800 \<le> c" "c < 0x10000" "\<not> (0xD800 \<le> c \<and> c \<le> 0xDFFF)"
  shows "decode_utf8 ((0xE0 + c div 4096) # (0x80 + c div 64 mod 64) # (0x80 + c mod 64) # bs)
         = emit c (decode_utf8 bs)"
proof -
  define q1 where "q1 = c div 64"
  define s where "s = c mod 64"
  define q where "q = q1 div 64"
  define r where "r = q1 mod 64"
  have c: "c = q1 * 64 + s" and s: "s \<le> 63" by (simp_all add: q1_def s_def)
  have q1: "q1 = q * 64 + r" and r: "r \<le> 63" by (simp_all add: q_def r_def)
  have b: "q \<le> 15" "q = 0 \<longrightarrow> 32 \<le> r" "q = 13 \<longrightarrow> r < 32"
    using assms c q1 s r by arith+
  have e: "q * 4096 + r * 64 + s = c" using c q1 by simp
  from decode_utf8_three [OF b(1) r s b(2) b(3), of bs] show ?thesis
    by (simp only: e) (simp only: div_4096 q_def r_def s_def q1_def)
qed

lemma decode_utf8_4:
  assumes "0x10000 \<le> c" "c < 0x110000"
  shows "decode_utf8 ((0xF0 + c div 262144) # (0x80 + c div 4096 mod 64)
            # (0x80 + c div 64 mod 64) # (0x80 + c mod 64) # bs)
         = emit c (decode_utf8 bs)"
proof -
  define q1 where "q1 = c div 64"
  define t where "t = c mod 64"
  define q2 where "q2 = q1 div 64"
  define s where "s = q1 mod 64"
  define q where "q = q2 div 64"
  define r where "r = q2 mod 64"
  have c: "c = q1 * 64 + t" and t: "t \<le> 63" by (simp_all add: q1_def t_def)
  have q1: "q1 = q2 * 64 + s" and s: "s \<le> 63" by (simp_all add: q2_def s_def)
  have q2: "q2 = q * 64 + r" and r: "r \<le> 63" by (simp_all add: q_def r_def)
  have b: "q \<le> 4" "q = 0 \<longrightarrow> 16 \<le> r" "q = 4 \<longrightarrow> r < 16"
    using assms c q1 q2 s r t by arith+
  have e: "q * 262144 + r * 4096 + s * 64 + t = c" using c q1 q2 by simp
  from decode_utf8_four [OF b(1) r s t b(2) b(3), of bs] show ?thesis
    by (simp only: e) (simp only: div_4096 div_262144 q_def r_def s_def t_def q1_def q2_def)
qed


lemma encode_utf8_Cons:
  "encode_utf8 (c # cs) = Inr bs \<Longrightarrow>
   \<not> (0xD800 \<le> c \<and> c \<le> 0xDFFF) \<and> c < 0x110000 \<and>
   (\<exists>bs'. encode_utf8 cs = Inr bs' \<and>
     bs = (if c < 0x80 then [c]
           else if c < 0x800 then [0xC0 + c div 64, 0x80 + c mod 64]
           else if c < 0x10000 then
             [0xE0 + c div 4096, 0x80 + c div 64 mod 64, 0x80 + c mod 64]
           else
             [0xF0 + c div 262144, 0x80 + c div 4096 mod 64,
              0x80 + c div 64 mod 64, 0x80 + c mod 64]) @ bs')"
  by (simp split: if_splits sum.splits)

lemma utf8_roundtrip: "encode_utf8 cs = Inr bs \<Longrightarrow> decode_utf8 bs = Inr cs"
proof (induction cs arbitrary: bs)
  case Nil
  then show ?case by simp
next
  case (Cons c cs)
  from encode_utf8_Cons [OF Cons.prems] obtain bs' where
    ok: "\<not> (0xD800 \<le> c \<and> c \<le> 0xDFFF)" "c < 0x110000" and
    e: "encode_utf8 cs = Inr bs'" and
    bs: "bs = (if c < 0x80 then [c]
           else if c < 0x800 then [0xC0 + c div 64, 0x80 + c mod 64]
           else if c < 0x10000 then
             [0xE0 + c div 4096, 0x80 + c div 64 mod 64, 0x80 + c mod 64]
           else
             [0xF0 + c div 262144, 0x80 + c div 4096 mod 64,
              0x80 + c div 64 mod 64, 0x80 + c mod 64]) @ bs'"
    by blast
  from e have ih: "decode_utf8 bs' = Inr cs" by (rule Cons.IH)
  consider "c < 0x80" | "0x80 \<le> c" "c < 0x800" | "0x800 \<le> c" "c < 0x10000" | "0x10000 \<le> c"
    by linarith
  then show ?case
  proof cases
    case 1
    with bs ih show ?thesis by (simp add: emit_def)
  next
    case 2
    with bs have "bs = (0xC0 + c div 64) # (0x80 + c mod 64) # bs'" by simp
    then have "decode_utf8 bs = emit c (decode_utf8 bs')"
      by (simp only: decode_utf8_2 [OF 2])
    with ih show ?thesis by (simp add: emit_def)
  next
    case 3
    with bs have "bs = (0xE0 + c div 4096) # (0x80 + c div 64 mod 64) # (0x80 + c mod 64) # bs'"
      by simp
    then have "decode_utf8 bs = emit c (decode_utf8 bs')"
      by (simp only: decode_utf8_3 [OF 3 ok(1)])
    with ih show ?thesis by (simp add: emit_def)
  next
    case 4
    with bs have "bs = (0xF0 + c div 262144) # (0x80 + c div 4096 mod 64)
            # (0x80 + c div 64 mod 64) # (0x80 + c mod 64) # bs'" by simp
    then have "decode_utf8 bs = emit c (decode_utf8 bs')"
      by (simp only: decode_utf8_4 [OF 4 ok(2)])
    with ih show ?thesis by (simp add: emit_def)
  qed
qed

lemma encode_utf8_octets: "encode_utf8 cs = Inr bs \<Longrightarrow> list_all (\<lambda>b. b < 256) bs"
proof (induction cs arbitrary: bs)
  case Nil
  then show ?case by simp
next
  case (Cons c cs)
  from encode_utf8_Cons [OF Cons.prems] obtain bs' where
    ok: "c < 0x110000" and
    e: "encode_utf8 cs = Inr bs'" and
    bs: "bs = (if c < 0x80 then [c]
           else if c < 0x800 then [0xC0 + c div 64, 0x80 + c mod 64]
           else if c < 0x10000 then
             [0xE0 + c div 4096, 0x80 + c div 64 mod 64, 0x80 + c mod 64]
           else
             [0xF0 + c div 262144, 0x80 + c div 4096 mod 64,
              0x80 + c div 64 mod 64, 0x80 + c mod 64]) @ bs'"
    by blast
  from e have ih: "list_all (\<lambda>b. b < 256) bs'" by (rule Cons.IH)
  have m: "c mod 64 \<le> 63" "c div 64 mod 64 \<le> 63" "c div 4096 mod 64 \<le> 63" by simp_all
  have d: "c < 0x800 \<Longrightarrow> c div 64 < 32" "c < 0x10000 \<Longrightarrow> c div 4096 < 16"
    "c div 262144 < 5" using ok by (simp_all add: less_mult_imp_div_less)
  show ?case using bs ih m d by auto
qed

lemma encode_utf8_total: "list_all (\<lambda>c. c < 0xD800 \<or> (0xDFFF < c \<and> c < 0x110000)) cs \<Longrightarrow> \<exists>bs. encode_utf8 cs = Inr bs"
  by (induction cs) auto

subsection \<open>Base64\<close>

lemma table_a2b_b2a: "n < 64 \<Longrightarrow> table_a2b_base64 (table_b2a_base64 n) = Some n"
  by (auto simp: table_a2b_base64_def table_b2a_base64_def)

lemma table_b2a_range:
  "n < 64 \<Longrightarrow> table_b2a_base64 n < 128 \<and> table_b2a_base64 n \<noteq> 45
     \<and> table_b2a_base64 n \<noteq> 95 \<and> table_b2a_base64 n \<noteq> BASE64_PAD"
  by (auto simp: table_b2a_base64_def BASE64_PAD_def)

lemma a2b_loop_char:
  "n < 64 \<Longrightarrow>
   a2b_loop (table_b2a_base64 n # rest) quad_pos leftchar pads bin_data =
     (if quad_pos = 0 then a2b_loop rest 1 n 0 bin_data
      else if quad_pos = 1 then
        a2b_loop rest 2 (n mod 16) 0 (bin_data @ [leftchar * 4 + n div 16])
      else if quad_pos = 2 then
        a2b_loop rest 3 (n mod 4) 0 (bin_data @ [leftchar * 16 + n div 4])
      else a2b_loop rest 0 0 0 (bin_data @ [leftchar * 64 + n]))"
  using table_b2a_range [of n] by (simp add: table_a2b_b2a)

lemma sextets:
  fixes a b c :: nat
  assumes "a < 256" "b < 256" "c < 256"
  shows "a div 4 < 64" "a mod 4 * 16 + b div 16 < 64" "b mod 16 * 4 + c div 64 < 64"
    "c mod 64 < 64" "a mod 4 * 16 < 64" "b mod 16 * 4 < 64"
  using assms by arith+

lemma div_mod_join:
  fixes x y n :: nat
  assumes "y < n"
  shows "(x * n + y) div n = x" "(x * n + y) mod n = y"
  using assms by simp_all

lemma octets:
  fixes a b c :: nat
  assumes "b < 256" "c < 256"
  shows "a div 4 * 4 + (a mod 4 * 16 + b div 16) div 16 = a"
    "(a mod 4 * 16 + b div 16) mod 16 * 16 + (b mod 16 * 4 + c div 64) div 4 = b"
    "(b mod 16 * 4 + c div 64) mod 4 * 64 + c mod 64 = c"
    "a div 4 * 4 + (a mod 4 * 16) div 16 = a"
    "(a mod 4 * 16 + b div 16) mod 16 * 16 + (b mod 16 * 4) div 4 = b"
proof -
  have b: "b div 16 < 16" and c: "c div 64 < 4"
    using assms by (simp_all add: less_mult_imp_div_less)
  show "a div 4 * 4 + (a mod 4 * 16 + b div 16) div 16 = a"
    by (simp only: div_mod_join [OF b]) simp
  show "(a mod 4 * 16 + b div 16) mod 16 * 16 + (b mod 16 * 4 + c div 64) div 4 = b"
    by (simp only: div_mod_join [OF b] div_mod_join [OF c]) simp
  show "(b mod 16 * 4 + c div 64) mod 4 * 64 + c mod 64 = c"
    by (simp only: div_mod_join [OF c]) simp
  show "a div 4 * 4 + (a mod 4 * 16) div 16 = a"
    by simp
  show "(a mod 4 * 16 + b div 16) mod 16 * 16 + (b mod 16 * 4) div 4 = b"
    by (simp only: div_mod_join [OF b]) simp
qed

lemma a2b_loop_b2a:
  "list_all (\<lambda>b. b < 256) s \<Longrightarrow> a2b_loop (b2a_base64 s) 0 leftchar pads bin_data = Inr (bin_data @ s)"
proof (induction s arbitrary: leftchar pads bin_data rule: b2a_base64.induct)
  case 1
  show ?case by simp
next
  case (2 a)
  then have a: "a < 256" by simp
  have "a2b_loop [BASE64_PAD, BASE64_PAD] 2 l 0 out = Inr out" for l out
    by simp
  then show ?case
    using sextets(1,5) [OF a a a] octets(4) [OF a a]
    by (simp add: a2b_loop_char del: a2b_loop.simps)
next
  case (3 a b)
  then have a: "a < 256" and b: "b < 256" by simp_all
  have "a2b_loop [BASE64_PAD] 3 l 0 out = Inr out" for l out
    by simp
  then show ?case
    using sextets(1,2,6) [OF a b b] octets(1,5) [OF b b]
    by (simp add: a2b_loop_char del: a2b_loop.simps)
next
  case (4 a b c rest)
  then have a: "a < 256" and b: "b < 256" and c: "c < 256"
    and rest: "list_all (\<lambda>b. b < 256) rest" by simp_all
  show ?case
    using sextets(1-4) [OF a b c] octets(1-3) [OF b c] "4.IH" [OF rest]
    by (simp add: a2b_loop_char del: a2b_loop.simps)
qed

lemma b2a_base64_chars:
  "list_all (\<lambda>b. b < 256) s \<Longrightarrow>
   list_all (\<lambda>c. c < 128 \<and> c \<noteq> 45 \<and> c \<noteq> 95) (b2a_base64 s)"
proof (induction s rule: b2a_base64.induct)
  case 1
  show ?case by simp
next
  case (2 a)
  then have a: "a < 256" by simp
  show ?case using sextets(1,5) [OF a a a, THEN table_b2a_range]
    by (simp add: BASE64_PAD_def)
next
  case (3 a b)
  then have a: "a < 256" and b: "b < 256" by simp_all
  show ?case using sextets(1,2,6) [OF a b b, THEN table_b2a_range]
    by (simp add: BASE64_PAD_def)
next
  case (4 a b c rest)
  then have a: "a < 256" and b: "b < 256" and c: "c < 256"
    and rest: "list_all (\<lambda>b. b < 256) rest" by simp_all
  show ?case using sextets(1-4) [OF a b c, THEN table_b2a_range] "4.IH" [OF rest]
    by simp
qed

lemma urlsafe_translation_inverse:
  "c \<noteq> 45 \<Longrightarrow> c \<noteq> 95 \<Longrightarrow> urlsafe_decode_translation (urlsafe_encode_translation c) = c"
  by (simp add: urlsafe_decode_translation_def urlsafe_encode_translation_def)

lemma urlsafe_encode_translation_ascii:
  "c < 128 \<Longrightarrow> urlsafe_encode_translation c < 128"
  by (simp add: urlsafe_encode_translation_def)

lemma urlsafe_b64encode_ascii:
  "list_all (\<lambda>b. b < 256) s \<Longrightarrow> list_all (\<lambda>c. c < 128) (urlsafe_b64encode s)"
  using b2a_base64_chars [of s]
  by (auto simp: urlsafe_b64encode_def list_all_iff urlsafe_encode_translation_ascii)

lemma urlsafe_b64_roundtrip:
  assumes "list_all (\<lambda>b. b < 256) s"
  shows "urlsafe_b64decode (urlsafe_b64encode s) = Inr s"
proof -
  have "map urlsafe_decode_translation (urlsafe_b64encode s) = b2a_base64 s"
    using b2a_base64_chars [OF assms]
    by (simp add: urlsafe_b64encode_def list_all_iff urlsafe_translation_inverse map_idI)
  then show ?thesis
    using urlsafe_b64encode_ascii [OF assms] a2b_loop_b2a [OF assms, of 0 0 "[]"]
    by (simp add: urlsafe_b64decode_def a2b_base64_def)
qed

lemma decode_utf8_ascii: "list_all (\<lambda>c. c < 128) s \<Longrightarrow> decode_utf8 s = Inr s"
  by (induction s) (simp_all add: emit_def)

subsection \<open>The hint\<close>

lemma encode_utf8_scalar: "list_all unicode_scalar cs \<Longrightarrow> \<exists>bs. encode_utf8 cs = Inr bs"
  by (induction cs) (auto simp: unicode_scalar_def)

lemma encode_entity_id_Inr:
  assumes "encode_utf8 entity_id = Inr raw"
  shows "encode_entity_id entity_id = Inr (urlsafe_b64encode raw)"
  using assms urlsafe_b64encode_ascii [OF encode_utf8_octets [OF assms]]
  by (simp add: encode_entity_id_def decode_utf8_ascii)

lemma decode_encode_entity_id:
  assumes "encode_entity_id entity_id = Inr hint"
  shows "decode_entity_id hint = Inr entity_id"
proof -
  from assms obtain raw where raw: "encode_utf8 entity_id = Inr raw"
    by (auto simp: encode_entity_id_def split: sum.splits)
  with assms have hint: "hint = urlsafe_b64encode raw"
    by (simp add: encode_entity_id_Inr)
  have "urlsafe_b64decode hint = Inr raw"
    unfolding hint by (rule urlsafe_b64_roundtrip [OF encode_utf8_octets [OF raw]])
  then show ?thesis
    by (simp add: decode_entity_id_def utf8_roundtrip [OF raw])
qed

section \<open>Facts about the operations\<close>

subsection \<open>The session state\<close>

lemma stored_remove: "stored (state_remove st key) key = None"
  by (simp add: stored_def state_remove_def delete_conv')

lemma stored_add: "stored (state_add st key val) key = Some val"
  by (simp add: stored_def state_add_def update_conv')

lemma state_get_stored: "stored st key = Some val \<Longrightarrow> state_get absent st key = Inr (Some val)"
  by (simp add: state_get_def)

lemma state_get_absent_key:
  "stored st key = None \<Longrightarrow>
   state_get absent st key = (case absent of None \<Rightarrow> Inr None | Some exc \<Rightarrow> Inl exc)"
  by (simp add: state_get_def)

subsection \<open>The example deployment, evaluated\<close>

lemma demo_name: "name demo_backend = ''saml''"
  by (simp add: demo_backend_def)

lemma mismatch_state: "state mismatch_context = [(''saml'', str_of ''Y'')]"
  by (simp add: mismatch_context_def)

lemma demo_mismatch:
  "authn_response demo_backend mismatch_context BINDING_HTTP_POST =
     \<lparr>result = Inl (SATOSAAuthenticationError [(''saml'', str_of ''Y'')]
                      ''State did not match relay state'' None),
      state_after = [(''saml'', str_of ''Y'')],
      calls = [Parse_authn_request_response (str_of ''R'') BINDING_HTTP_POST]\<rparr>"
  by (simp add: authn_response_def mismatch_context_def demo_backend_def demo_sp_def
        state_get_def stored_def str_of_def Let_def)

lemma demo_match:
  "authn_response demo_backend match_context BINDING_HTTP_POST =
     \<lparr>result = Inr (Response [] []),
      state_after = [],
      calls = [Parse_authn_request_response (str_of ''R'') BINDING_HTTP_POST,
               Auth_callback_func (match_context\<lparr>state := []\<rparr>)
                 \<lparr>auth_info = AuthenticationInformation (str_of ''pw'') (str_of ''now'') (str_of ''idp1''),
                  user_id = Some (str_of ''u1''), attributes = []\<rparr>]\<rparr>"
  by (simp add: authn_response_def match_context_def demo_backend_def demo_sp_def
        state_get_def stored_def state_remove_def str_of_def translate_response_def
        demo_response_def
        InternalResponse_def set_user_id_def add_attributes_def Let_def)

subsection \<open>\<open>authn_response\<close>\<close>

lemma authn_response_failures:
  assumes "result (authn_response self context binding) = Inl (SATOSAAuthenticationError st msg cause)"
  shows "st = state context \<and> state_after (authn_response self context binding) = state context
         \<and> (\<forall>c i. Auth_callback_func c i \<notin> set (calls (authn_response self context binding)))"
  using assms
  by (auto simp: authn_response_def Let_def raise_def split: option.splits sum.splits if_splits)

lemma authn_response_callback:
  assumes "Auth_callback_func c i \<in> set (calls (authn_response self context binding))"
  shows "c = context\<lparr>state := state_remove (state context) (name self)\<rparr>
         \<and> state_after (authn_response self context binding) = state c"
  using assms
  by (auto simp: authn_response_def Let_def raise_def split: option.splits sum.splits if_splits)

lemma authn_response_validation:
  assumes "map_of (request context) ''SAMLResponse'' = Some payload" "payload \<noteq> []"
    and "parse_authn_request_response (sp self) payload binding = Inr resp"
    and "map_of (request context) ''RelayState'' = Some echoed"
  shows "stored (state context) (name self) = Some echoed \<Longrightarrow>
           state_after (authn_response self context binding)
             = state_remove (state context) (name self)
           \<and> (\<forall>st msg cause. result (authn_response self context binding)
                 \<noteq> Inl (SATOSAAuthenticationError st msg cause))"
    and "stored (state context) (name self) = Some token \<Longrightarrow> token \<noteq> echoed \<Longrightarrow>
           authn_response self context binding =
             \<lparr>result = Inl (SATOSAAuthenticationError (state context)
                              ''State did not match relay state'' None),
              state_after = state context,
              calls = [Parse_authn_request_response payload binding]\<rparr>"
    and "stored (state context) (name self) = None \<Longrightarrow>
           authn_response self context binding =
             \<lparr>result =
                (case state_get_absent self of
                   None \<Rightarrow> Inl (SATOSAAuthenticationError (state context)
                                    ''State did not match relay state'' None)
                 | Some exc \<Rightarrow> Inl (Raised exc)),
              state_after = state context,
              calls = [Parse_authn_request_response payload binding]\<rparr>"
  using assms
  by (auto simp: authn_response_def Let_def state_get_def split: sum.splits option.splits)

lemma demo_parse: "parse_authn_request_response (sp demo_backend) p b = Inr demo_response"
  by (simp add: demo_backend_def demo_sp_def)

subsection \<open>\<open>authn_request\<close>\<close>

lemma location_header_map_of: "location_header hs = map_of hs ''Location''"
  by (induction hs rule: location_header.induct) simp_all

lemma authn_request_try_calls:
  "\<forall>ret. Create_discovery_service_request ret \<notin> set (fst (authn_request_try self entity_id args))"
  by (auto simp: authn_request_try_def Let_def split: sum.splits option.splits list.splits prod.splits)

lemma authn_request_Inl:
  assumes "snd (authn_request_try self entity_id (req_args self)) = Inl exc"
  shows "authn_request self context entity_id internal_req =
     \<lparr>result = Inl (SATOSAAuthenticationError (state context)
                      ''Failed to construct the AuthnRequest'' (Some exc)),
      state_after = state context,
      calls = fst (authn_request_try self entity_id (req_args self))\<rparr>"
  using assms
  by (cases "authn_request_try self entity_id (req_args self)") (simp add: authn_request_def Let_def)

lemma authn_request_Inr:
  assumes "snd (authn_request_try self entity_id (req_args self)) = Inr (binding, ht, relay_state)"
  shows "authn_request self context entity_id internal_req =
     \<lparr>result =
        (if binding = BINDING_HTTP_REDIRECT then
           (case map_of (headers ht) ''Location'' of
              Some v \<Rightarrow> Inr (SeeOther v)
            | None \<Rightarrow> Inl (SATOSAAuthenticationError
                             (state_add (state context) (name self) relay_state)
                             ''Parameter error'' None))
         else Inr (Response (data ht) (headers ht))),
      state_after = state_add (state context) (name self) relay_state,
      calls = fst (authn_request_try self entity_id (req_args self))\<rparr>"
  using assms
  by (cases "authn_request_try self entity_id (req_args self)")
     (simp add: authn_request_def Let_def location_header_map_of split: option.splits)

lemma authn_request_cases:
  obtains exc where "snd (authn_request_try self entity_id (req_args self)) = Inl exc"
  | binding ht relay_state where
      "snd (authn_request_try self entity_id (req_args self)) = Inr (binding, ht, relay_state)"
  by (metis sum.exhaust prod_cases3)

lemma authn_request_not_Raised:
  "result (authn_request self context entity_id internal_req) \<noteq> Inl (Raised exc)"
  by (cases rule: authn_request_cases [of self entity_id])
     (simp_all add: authn_request_Inl authn_request_Inr split: option.splits)

lemma authn_request_messages:
  assumes "result (authn_request self context entity_id internal_req)
           = Inl (SATOSAAuthenticationError st msg cause)"
  shows "msg = ''Failed to construct the AuthnRequest'' \<or> msg = ''Parameter error''"
  using assms
  by (cases rule: authn_request_cases [of self entity_id])
     (auto simp add: authn_request_Inl authn_request_Inr split: option.splits if_splits)

lemma authn_request_no_discovery:
  "Create_discovery_service_request ret \<notin> set (calls (authn_request self context entity_id internal_req))"
  using authn_request_try_calls [of self entity_id]
  by (cases rule: authn_request_cases [of self entity_id])
     (simp_all add: authn_request_Inl authn_request_Inr)

lemma authn_request_context:
  "authn_request self (context\<lparr>internal_data := d\<rparr>) entity_id internal_req
   = authn_request self context entity_id internal_req"
  "authn_request self (context\<lparr>request := q\<rparr>) entity_id internal_req
   = authn_request self context entity_id internal_req"
  by (simp_all add: authn_request_def)

lemma demo_try:
  "authn_request_try demo_backend e (req_args demo_backend) =
     ([Pick_binding e, Create_authn_request (str_of ''sso'') BINDING_HTTP_POST,
       Apply_binding BINDING_HTTP_REDIRECT (str_of ''sso'') (str_of ''tok'')],
      Inr (BINDING_HTTP_REDIRECT, \<lparr>headers = [(''Location'', str_of ''loc'')], data = []\<rparr>,
           str_of ''tok''))"
  by (simp add: authn_request_try_def demo_backend_def demo_sp_def Let_def)

lemma headerless_try:
  "authn_request_try headerless_backend e (req_args headerless_backend) =
     ([Pick_binding e, Create_authn_request (str_of ''sso'') BINDING_HTTP_POST,
       Apply_binding BINDING_HTTP_REDIRECT (str_of ''sso'') (str_of ''tok'')],
      Inr (BINDING_HTTP_REDIRECT,
           \<lparr>headers = [(''Cache-Control'', str_of ''no-cache'')], data = []\<rparr>,
           str_of ''tok''))"
  by (simp add: authn_request_try_def headerless_backend_def demo_backend_def demo_sp_def Let_def)

lemma failing_try:
  "authn_request_try failing_backend e (req_args failing_backend) =
     ([Pick_binding e], Inl (LibraryError ''UnknownSystemEntity''))"
  by (simp add: authn_request_try_def failing_backend_def demo_backend_def demo_sp_def)

lemma backend_names:
  "name failing_backend = ''saml''" "name headerless_backend = ''saml''"
  "name single_idp_backend = ''saml''"
  by (simp_all add: failing_backend_def headerless_backend_def single_idp_backend_def
        demo_backend_def)

lemma context_states:
  "state pending_context = [(''saml'', str_of ''old'')]" "state empty_context = []"
  "state bad_hint_context = []"
  by (simp_all add: pending_context_def empty_context_def bad_hint_context_def)

lemma authn_response_empty_payload:
  "map_of (request context) ''SAMLResponse'' = Some [] \<Longrightarrow>
   authn_response self context binding =
     \<lparr>result = Inl (SATOSAAuthenticationError (state context) ''Missing Response'' None),
      state_after = state context, calls = []\<rparr>"
  by (simp add: authn_response_def Let_def)

subsection \<open>What the codecs raise\<close>

lemma a2b_loop_error: "a2b_loop s quad_pos leftchar pads bin_data = Inl exc \<Longrightarrow> exc = BinasciiError"
  by (induction s quad_pos leftchar pads bin_data rule: a2b_loop.induct)
     (auto split: if_splits option.splits)

lemma encode_utf8_error: "encode_utf8 cs = Inl exc \<Longrightarrow> exc = UnicodeEncodeError"
  by (induction cs) (auto split: if_splits sum.splits)

lemma emit_error: "emit c r = Inl exc \<Longrightarrow> r = Inl exc"
  by (cases r) (simp_all add: emit_def)

lemma decode_utf8_shape:
  "decode_utf8 (b0 # bs) = Inl UnicodeDecodeError
   \<or> (\<exists>c rest. length rest \<le> length bs \<and> decode_utf8 (b0 # bs) = emit c (decode_utf8 rest))"
proof -
  have fin: "length rest \<le> length bs \<Longrightarrow>
      \<exists>b c. decode_utf8 (b0 # bs) = (if b then emit c (decode_utf8 rest) else Inl UnicodeDecodeError)
      \<Longrightarrow> ?thesis" for rest
    by (metis (full_types))
  show ?thesis
  proof (cases "b0 < 0x80")
    case True
    then have "decode_utf8 (b0 # bs) = emit b0 (decode_utf8 bs)"
      by (simp only: decode_utf8.simps if_True)
    then show ?thesis by (intro disjI2 exI [of _ b0] exI [of _ bs]) simp
  next
    case n1: False
    show ?thesis
    proof (cases "0xC2 \<le> b0 \<and> b0 \<le> 0xDF")
      case True
      show ?thesis
      proof (cases bs)
        case Nil
        show ?thesis
          by (rule disjI1) (simp only: decode_utf8.simps n1 True Nil if_True if_False list.case simp_thms)
      next
        case (Cons b1 bs1)
        show ?thesis
        proof (rule fin [of bs1])
          show "length bs1 \<le> length bs" by (simp add: Cons)
          show "\<exists>b c. decode_utf8 (b0 # bs)
                  = (if b then emit c (decode_utf8 bs1) else Inl UnicodeDecodeError)"
            by (simp only: decode_utf8.simps n1 True Cons if_True if_False list.case simp_thms)
               (intro exI, rule refl)
        qed
      qed
    next
      case n2: False
      show ?thesis
      proof (cases "0xE0 \<le> b0 \<and> b0 \<le> 0xEF")
        case True
        show ?thesis
        proof (cases bs)
          case Nil
          show ?thesis
            by (rule disjI1)
               (simp only: decode_utf8.simps n1 n2 True Nil if_True if_False list.case simp_thms)
        next
          case c1: (Cons b1 bs1)
          show ?thesis
          proof (cases bs1)
            case Nil
            show ?thesis
              by (rule disjI1)
                 (simp only: decode_utf8.simps n1 n2 True c1 Nil if_True if_False list.case simp_thms)
          next
            case (Cons b2 bs2)
            show ?thesis
            proof (rule fin [of bs2])
              show "length bs2 \<le> length bs" by (simp add: c1 Cons)
              show "\<exists>b c. decode_utf8 (b0 # bs)
                      = (if b then emit c (decode_utf8 bs2) else Inl UnicodeDecodeError)"
                by (simp only: decode_utf8.simps n1 n2 True c1 Cons if_True if_False list.case simp_thms)
                   (intro exI, rule refl)
            qed
          qed
        qed
      next
        case n3: False
        show ?thesis
        proof (cases "0xF0 \<le> b0 \<and> b0 \<le> 0xF4")
          case True
          show ?thesis
          proof (cases bs)
            case Nil
            show ?thesis
              by (rule disjI1)
                 (simp only: decode_utf8.simps n1 n2 n3 True Nil if_True if_False list.case simp_thms)
          next
            case c1: (Cons b1 bs1)
            show ?thesis
            proof (cases bs1)
              case Nil
              show ?thesis
                by (rule disjI1)
                   (simp only: decode_utf8.simps n1 n2 n3 True c1 Nil if_True if_False list.case simp_thms)
            next
              case c2: (Cons b2 bs2)
              show ?thesis
              proof (cases bs2)
                case Nil
                show ?thesis
                  by (rule disjI1)
                     (simp only: decode_utf8.simps n1 n2 n3 True c1 c2 Nil if_True if_False simp_thms
                        list.case)
              next
                case (Cons b3 bs3)
                show ?thesis
                proof (rule fin [of bs3])
                  show "length bs3 \<le> length bs" by (simp add: c1 c2 Cons)
                  show "\<exists>b c. decode_utf8 (b0 # bs)
                          = (if b then emit c (decode_utf8 bs3) else Inl UnicodeDecodeError)"
                    by (simp only: decode_utf8.simps n1 n2 n3 True c1 c2 Cons if_True if_False simp_thms
                          list.case)
                       (intro exI, rule refl)
                qed
              qed
            qed
          qed
        next
          case False
          show ?thesis
            by (rule disjI1) (simp only: decode_utf8.simps n1 n2 n3 False if_False simp_thms)
        qed
      qed
    qed
  qed
qed

lemma decode_utf8_error: "decode_utf8 bs = Inl exc \<Longrightarrow> exc = UnicodeDecodeError"
proof (induction bs rule: length_induct)
  case (1 bs)
  show ?case
  proof (cases bs)
    case Nil
    with "1.prems" show ?thesis by simp
  next
    case (Cons b0 rest)
    from decode_utf8_shape [of b0 rest] show ?thesis
    proof
      assume "decode_utf8 (b0 # rest) = Inl UnicodeDecodeError"
      with "1.prems" Cons show ?thesis by (simp only: sum.inject)
    next
      assume "\<exists>c r. length r \<le> length rest \<and> decode_utf8 (b0 # rest) = emit c (decode_utf8 r)"
      then obtain c r where r: "length r \<le> length rest"
        and e: "decode_utf8 (b0 # rest) = emit c (decode_utf8 r)" by blast
      from e "1.prems" Cons have "emit c (decode_utf8 r) = Inl exc" by (simp only:)
      then have "decode_utf8 r = Inl exc" by (rule emit_error)
      moreover from r Cons have "length r < length bs" by simp
      ultimately show ?thesis using "1.IH" by blast
    qed
  qed
qed

lemma urlsafe_b64decode_error:
  "urlsafe_b64decode s = Inl exc \<Longrightarrow> exc = AsciiError \<or> exc = BinasciiError"
  by (auto simp: urlsafe_b64decode_def a2b_base64_def split: if_splits dest: a2b_loop_error)

lemma decode_entity_id_error: "decode_entity_id hint = Inl exc \<Longrightarrow> exc \<noteq> KeyError"
  by (auto simp: decode_entity_id_def split: sum.splits
        dest: urlsafe_b64decode_error decode_utf8_error)

lemma encode_entity_id_error: "encode_entity_id entity_id = Inl exc \<Longrightarrow> exc \<noteq> KeyError"
  by (auto simp: encode_entity_id_def split: sum.splits
        dest: encode_utf8_error decode_utf8_error)

subsection \<open>\<open>start_auth\<close>\<close>

lemma start_auth_except_not_KeyError:
  "result r \<noteq> Inl (Raised KeyError) \<Longrightarrow> start_auth_except self context internal_req r = r"
  by (simp add: start_auth_except_def)

lemma start_auth_except_KeyError:
  "start_auth_except self context internal_req (raise KeyError context)
   = disco_query self context internal_req"
  by (simp add: start_auth_except_def raise_def Let_def)

lemma single_idp_providers: "identity_providers (sp single_idp_backend) = [str_of ''idp1'']"
  by (simp add: single_idp_backend_def demo_backend_def)

lemma demo_providers: "length (identity_providers (sp demo_backend)) \<noteq> 1"
  by (simp add: demo_backend_def demo_sp_def)

lemma bad_hint: "decode_entity_id (str_of ''A'') = Inl BinasciiError"
  by (simp add: decode_entity_id_def urlsafe_b64decode_def a2b_base64_def str_of_def
        urlsafe_decode_translation_def table_a2b_base64_def BASE64_PAD_def)

lemma demo_disco_query:
  "disco_query demo_backend c (InternalRequest None None) =
     \<lparr>result = Inr (SeeOther (str_of ''ds'')), state_after = state c,
      calls = [Create_discovery_service_request (str_of ''/disco'')]\<rparr>"
  by (simp add: disco_query_def demo_backend_def demo_sp_def Let_def)

subsection \<open>\<open>get_metadata_desc\<close>\<close>

lemma except_KeyError_not_KeyError: "except_KeyError r \<noteq> Inl KeyError"
  by (auto simp: except_KeyError_def split: prod.splits option.splits)

lemma except_KeyError_Inr: "except_KeyError r = Inr d \<Longrightarrow> d = fst r"
  by (auto simp: except_KeyError_def split: prod.splits option.splits if_splits)

lemma add_organization_info_cases:
  "add_organization_info ent entity_id d = d
   \<or> (\<exists>org. add_organization_info ent entity_id d = set_organization d org)"
  by (auto simp: add_organization_info_def split: option.splits sum.splits)

lemma add_organization_info_key:
  "desc_entity_id (add_organization_info ent entity_id d) = desc_entity_id d"
  using add_organization_info_cases [of ent entity_id d]
  by (auto simp: set_organization_def)

lemma add_contact_persons_key:
  "desc_entity_id (fst (add_contact_persons xs d)) = desc_entity_id d"
  by (induction xs arbitrary: d) (auto simp: add_contact_person_def split: sum.splits)

lemma set_ui_infos_key:
  "desc_entity_id (fst (set_ui_infos xs d)) = desc_entity_id d"
  by (induction xs arbitrary: d) (auto simp: set_ui_info_def split: sum.splits)

lemma add_contact_person_info_key:
  "add_contact_person_info ent entity_id d = Inr d' \<Longrightarrow> desc_entity_id d' = desc_entity_id d"
  by (auto simp: add_contact_person_info_def add_contact_persons_key
        dest!: except_KeyError_Inr split: option.splits sum.splits)

lemma add_ui_info_key:
  "add_ui_info ent entity_id d = Inr d' \<Longrightarrow> desc_entity_id d' = desc_entity_id d"
  by (auto simp: add_ui_info_def set_ui_infos_key
        dest!: except_KeyError_Inr split: option.splits sum.splits)

lemma describe_entity_key:
  "describe_entity ent entity_id = Inr d \<Longrightarrow> encode_entity_id entity_id = Inr (desc_entity_id d)"
  by (auto simp: describe_entity_def Let_def new_MetadataDescription_def add_organization_info_key
        split: sum.splits dest!: add_contact_person_info_key add_ui_info_key)

lemma describe_entity_not_KeyError: "describe_entity ent entity_id \<noteq> Inl KeyError"
  by (auto simp: describe_entity_def Let_def add_contact_person_info_def add_ui_info_def
        except_KeyError_not_KeyError split: sum.splits dest: encode_entity_id_error)

lemma describe_entities_keys:
  "describe_entities ent ids = Inr ds \<Longrightarrow>
   map (\<lambda>d. Inr (desc_entity_id d)) ds = map encode_entity_id ids"
  by (induction ids arbitrary: ds) (auto split: sum.splits dest: describe_entity_key)

lemma describe_entities_not_KeyError: "describe_entities ent ids \<noteq> Inl KeyError"
  by (induction ids) (auto split: sum.splits simp: describe_entity_not_KeyError)

lemma entity_ids_of_not_KeyError: "entity_ids_of f \<noteq> Inl KeyError"
  by (auto simp: entity_ids_of_def split: option.splits)

lemma describe_files_not_KeyError: "describe_files fs \<noteq> Inl KeyError"
  by (induction fs)
     (auto split: sum.splits simp: describe_entities_not_KeyError entity_ids_of_not_KeyError)

lemma describe_files_keys:
  "describe_files fs = Inr ds \<Longrightarrow>
   \<exists>idss. map entity_ids_of fs = map Inr idss
     \<and> map (\<lambda>d. Inr (desc_entity_id d)) ds = map encode_entity_id (concat idss)"
proof (induction fs arbitrary: ds)
  case Nil
  then show ?case by simp
next
  case (Cons f fs)
  from Cons.prems obtain ids ds1 ds2 where
    ids: "entity_ids_of f = Inr ids" and ds1: "describe_entities (entity f) ids = Inr ds1"
    and ds2: "describe_files fs = Inr ds2" and ds: "ds = ds1 @ ds2"
    by (auto split: sum.splits)
  from Cons.IH [OF ds2] obtain idss where
    idss: "map entity_ids_of fs = map Inr idss"
    and keys: "map (\<lambda>d. Inr (desc_entity_id d)) ds2 = map encode_entity_id (concat idss)"
    by blast
  have "map entity_ids_of (f # fs) = map Inr (ids # idss)"
    using ids idss by simp
  moreover have "map (\<lambda>d. Inr (desc_entity_id d)) ds = map encode_entity_id (concat (ids # idss))"
    using describe_entities_keys [OF ds1] keys ds by simp
  ultimately show ?case by blast
qed

lemma absent_sections:
  assumes "map_of ent entity_id = None \<or> (\<exists>e. map_of ent entity_id = Some (PDict e) \<and> map_of e key = None)"
  shows "key = ''organization'' \<Longrightarrow> add_organization_info ent entity_id d = d"
    and "key = ''contact_person'' \<Longrightarrow> add_contact_person_info ent entity_id d = Inr d"
    and "key = ''idpsso_descriptor'' \<Longrightarrow> add_ui_info ent entity_id d = Inr d"
  using assms
  by (auto simp: add_organization_info_def add_contact_person_info_def add_ui_info_def
        except_KeyError_def)

lemma encode_examples:
  "encode_entity_id (str_of ''a'') = Inr (str_of ''YQ=='')"
  "encode_entity_id (str_of ''b'') = Inr (str_of ''Yg=='')"
  "encode_entity_id (str_of ''c'') = Inr (str_of ''Yw=='')"
  by (simp_all add: encode_entity_id_def urlsafe_b64encode_def table_b2a_base64_def
        urlsafe_encode_translation_def emit_def str_of_def BASE64_PAD_def)

lemma describe_a:
  "describe_entity [(str_of ''a'', entity_a)] (str_of ''a'') = Inr description_a"
  by (simp add: describe_entity_def encode_examples entity_a_def description_a_def
        add_organization_info_def organization_desc_def for_text_lang_def text_lang_def
        add_contact_person_info_def add_ui_info_def except_KeyError_def
        new_MetadataDescription_def set_organization_def Let_def)

lemma contact_b1:
  "contact_person_desc
     (PDict [(''contact_type'', PStr (str_of ''technical'')),
             (''email_address'', PList [PDict [(''text'', PStr (str_of ''x@b''))]])])
   = Inr \<lparr>contact_type = Some (PStr (str_of ''technical'')),
          email_address = [PStr (str_of ''x@b'')], given_name = None, sur_name = None\<rparr>"
  by (simp add: contact_person_desc_def text_if_present_def new_ContactPersonDesc_def)

lemma contact_b2: "contact_person_desc (PDict [(''given_name'', PDict [])]) = Inl KeyError"
  by (simp add: contact_person_desc_def text_if_present_def)

lemma ui_b:
  "ui_info_desc (PDict [(''extensions'',
               PDict [(''extension_elements'',
                 PList [PDict [(''__class__'', PStr (UI_NAMESPACE @ str_of ''&UIInfo'')),
                               (''display_name'', PList [text_lang ''B'' ''en'']),
                               (''logo'', PList [PDict [(''text'', PStr (str_of ''l.png'')),
                                                        (''height'', PStr (str_of ''16''))]])]])])])
   = Inl KeyError"
  by (simp add: ui_info_desc_def for_text_lang_def for_logo_def text_lang_def)

lemma describe_b:
  "describe_entity [(str_of ''b'', entity_b)] (str_of ''b'') = Inr description_b"
  by (simp add: describe_entity_def encode_examples entity_b_def description_b_def
        add_organization_info_def add_contact_person_info_def add_ui_info_def
        contact_b1 contact_b2 ui_b except_KeyError_def add_contact_person_def
        new_MetadataDescription_def Let_def)



lemma good_listing:
  "get_metadata_desc (listing_backend good_metadata) = Inr [description_a, description_b]"
  by (simp add: get_metadata_desc_def listing_backend_def good_metadata_def entity_ids_of_def
        describe_a describe_b)


text \<open>
  What the three blocks do give: \<open>KeyError\<close> never leaves the listing, a listing
  that returns has one description per entity under its encoded id, and an entity
  without a section keeps its description unchanged by that section's block.
\<close>

lemma get_metadata_desc_key_errors:
  "get_metadata_desc self \<noteq> Inl KeyError
   \<and> (\<forall>ds. get_metadata_desc self = Inr ds \<longrightarrow>
         (\<exists>idss. map entity_ids_of (map snd (metadata (sp self))) = map Inr idss
            \<and> map (\<lambda>d. Inr (desc_entity_id d)) ds = map encode_entity_id (concat idss)))
   \<and> (add_organization_info ent entity_id d = d
        \<or> (\<exists>org. add_organization_info ent entity_id d = set_organization d org))
   \<and> add_contact_person_info ent entity_id d \<noteq> Inl KeyError
   \<and> add_ui_info ent entity_id d \<noteq> Inl KeyError
   \<and> (\<forall>e. map_of ent entity_id = Some (PDict e) \<and> map_of e ''organization'' = None \<longrightarrow>
         add_organization_info ent entity_id d = d)
   \<and> (\<forall>e. map_of ent entity_id = Some (PDict e) \<and> map_of e ''contact_person'' = None \<longrightarrow>
         add_contact_person_info ent entity_id d = Inr d)
   \<and> (\<forall>e. map_of ent entity_id = Some (PDict e) \<and> map_of e ''idpsso_descriptor'' = None \<longrightarrow>
         add_ui_info ent entity_id d = Inr d)"
proof (intro conjI allI impI)
  show "get_metadata_desc self \<noteq> Inl KeyError"
    by (simp add: get_metadata_desc_def describe_files_not_KeyError)
next
  fix ds
  assume "get_metadata_desc self = Inr ds"
  then show "\<exists>idss. map entity_ids_of (map snd (metadata (sp self))) = map Inr idss
            \<and> map (\<lambda>d. Inr (desc_entity_id d)) ds = map encode_entity_id (concat idss)"
    unfolding get_metadata_desc_def by (rule describe_files_keys)
next
  show "add_organization_info ent entity_id d = d
        \<or> (\<exists>org. add_organization_info ent entity_id d = set_organization d org)"
    by (rule add_organization_info_cases)
next
  show "add_contact_person_info ent entity_id d \<noteq> Inl KeyError"
    by (simp add: add_contact_person_info_def except_KeyError_not_KeyError)
next
  show "add_ui_info ent entity_id d \<noteq> Inl KeyError"
    by (simp add: add_ui_info_def except_KeyError_not_KeyError)
next
  fix e
  assume "map_of ent entity_id = Some (PDict e) \<and> map_of e ''organization'' = None"
  then show "add_organization_info ent entity_id d = d"
    by (intro absent_sections(1) [where key = "''organization''"]) auto
next
  fix e
  assume "map_of ent entity_id = Some (PDict e) \<and> map_of e ''contact_person'' = None"
  then show "add_contact_person_info ent entity_id d = Inr d"
    by (intro absent_sections(2) [where key = "''contact_person''"]) auto
next
  fix e
  assume "map_of ent entity_id = Some (PDict e) \<and> map_of e ''idpsso_descriptor'' = None"
  then show "add_ui_info ent entity_id d = Inr d"
    by (intro absent_sections(3) [where key = "''idpsso_descriptor''"]) auto
qed

section \<open>The claims\<close>

text \<open>
  C1.  The claim: after every completed attempt handled by \<open>authn_response\<close>, success
  or failure, the session state holds no relay-state token under the adapter's name.
  This fails on the failure paths: each of them raises before \<open>state.remove\<close> is
  reached.  With the token \<open>Y\<close> pending and \<open>X\<close> echoed, the run ends in the mismatch
  error and the token \<open>Y\<close> is still there.
\<close>

theorem authn_response_keeps_token_counterexample:
  "result (authn_response demo_backend mismatch_context BINDING_HTTP_POST) =
     Inl (SATOSAAuthenticationError [(''saml'', str_of ''Y'')] ''State did not match relay state'' None)
   \<and> stored (state_after (authn_response demo_backend mismatch_context BINDING_HTTP_POST))
        (name demo_backend) = Some (str_of ''Y'')"
  by (simp add: demo_mismatch demo_name stored_def)

text \<open>
  C1, amended.  Whenever \<open>authn_response\<close> raises an authentication error of its own
  (missing response, parse failure, relay-state mismatch), the session state is left
  exactly as it was, and the error carries that state.  Whenever it reaches the
  downstream callback, the state it hands over holds no token under the adapter's
  name, and that is the state it leaves.
\<close>

theorem authn_response_state_after:
  "(\<forall>st msg cause.
      result (authn_response self context binding) = Inl (SATOSAAuthenticationError st msg cause)
      \<longrightarrow> st = state context
          \<and> state_after (authn_response self context binding) = state context)
   \<and> (\<forall>c i. Auth_callback_func c i \<in> set (calls (authn_response self context binding))
      \<longrightarrow> stored (state c) (name self) = None
          \<and> state_after (authn_response self context binding) = state c)"
proof (intro conjI allI impI)
  fix st msg cause
  assume "result (authn_response self context binding) = Inl (SATOSAAuthenticationError st msg cause)"
  from authn_response_failures [OF this]
  show "st = state context" "state_after (authn_response self context binding) = state context"
    by simp_all
next
  fix c i
  assume "Auth_callback_func c i \<in> set (calls (authn_response self context binding))"
  from authn_response_callback [OF this]
  show "stored (state c) (name self) = None"
    "state_after (authn_response self context binding) = state c"
    by (simp_all add: stored_remove)
qed

theorem authn_response_state_after_witness:
  "result (authn_response demo_backend mismatch_context BINDING_HTTP_POST) =
     Inl (SATOSAAuthenticationError (state mismatch_context) ''State did not match relay state'' None)
   \<and> state_after (authn_response demo_backend mismatch_context BINDING_HTTP_POST)
       = state mismatch_context
   \<and> Auth_callback_func (match_context\<lparr>state := []\<rparr>)
         \<lparr>auth_info = AuthenticationInformation (str_of ''pw'') (str_of ''now'') (str_of ''idp1''),
          user_id = Some (str_of ''u1''), attributes = []\<rparr>
       \<in> set (calls (authn_response demo_backend match_context BINDING_HTTP_POST))
   \<and> stored (state_after (authn_response demo_backend match_context BINDING_HTTP_POST))
        (name demo_backend) = None"
  using authn_response_state_after [of demo_backend mismatch_context BINDING_HTTP_POST]
    authn_response_state_after [of demo_backend match_context BINDING_HTTP_POST]
  by (simp add: demo_mismatch demo_match mismatch_state demo_name stored_def)

text \<open>
  C2.  The claim: relay-state validation in \<open>authn_response\<close> succeeds exactly when a
  token is stored under the adapter's name and the echoed value equals it, and in
  particular a session for which no token was ever issued ends in the
  relay-state-mismatch error.  With a token stored the code does this
  (\<open>authn_response_validation\<close>).  Without one, line 199 calls
  \<open>state.get(self.name)\<close> unguarded: where \<open>State.get\<close> raises for a key that was never
  added, that exception leaves \<open>authn_response\<close> and the mismatch error is not raised.
  The token \<open>Y\<close> echoed to a session without a token, on a state that raises
  \<open>KeyError\<close>: the run ends in \<open>KeyError\<close> after the payload was parsed; the callback
  is not called and the state is as before.
\<close>

theorem authn_response_no_token:
  "stored (state fresh_context) (name demo_backend) = None
   \<and> authn_response demo_backend fresh_context BINDING_HTTP_POST =
       \<lparr>result = Inl (Raised KeyError), state_after = [],
        calls = [Parse_authn_request_response (str_of ''R'') BINDING_HTTP_POST]\<rparr>"
  by (simp add: authn_response_def fresh_context_def demo_backend_def demo_sp_def
        state_get_def stored_def Let_def str_of_def)

text \<open>
  C3.  The claim: with more than one identity provider, a hint that is absent or that
  fails to decode as URL-safe base64 UTF-8 raises nothing and \<open>start_auth\<close> goes on
  with \<open>disco_query\<close>.  The \<open>except\<close> clause catches \<open>KeyError\<close> only, and the
  decoders raise \<open>binascii.Error\<close>, \<open>ValueError\<close> or \<open>UnicodeDecodeError\<close>: with two
  identity providers and the hint \<open>A\<close>, \<open>start_auth\<close> raises \<open>binascii.Error\<close> and
  makes no discovery request.
\<close>

theorem start_auth_bad_hint_counterexample:
  "length (identity_providers (sp demo_backend)) = 2
   \<and> map_of (internal_data bad_hint_context) ''mirror.target_entity_id'' = Some (str_of ''A'')
   \<and> decode_entity_id (str_of ''A'') = Inl BinasciiError
   \<and> result (start_auth demo_backend bad_hint_context (InternalRequest None None))
       = Inl (Raised BinasciiError)
   \<and> start_auth demo_backend bad_hint_context (InternalRequest None None)
       \<noteq> disco_query demo_backend bad_hint_context (InternalRequest None None)"
proof -
  have s: "start_auth demo_backend bad_hint_context (InternalRequest None None)
           = raise BinasciiError bad_hint_context"
    by (simp add: start_auth_def demo_backend_def demo_sp_def bad_hint_context_def bad_hint
          start_auth_except_def raise_def Let_def)
  show ?thesis
    by (simp add: s demo_disco_query bad_hint raise_def)
       (simp add: demo_backend_def demo_sp_def bad_hint_context_def)
qed

text \<open>
  C3, amended.  Whenever the federation does not list exactly one identity provider:
  if the hint is absent, \<open>start_auth\<close> raises nothing of its own and is
  \<open>disco_query\<close>; if the hint is present and fails to decode, the decoder's exception
  is raised to the caller, with the state untouched and no call made.
\<close>

theorem start_auth_hint:
  assumes "length (identity_providers (sp self)) \<noteq> 1"
  shows "(map_of (internal_data context) ''mirror.target_entity_id'' = None \<longrightarrow>
            start_auth self context internal_req = disco_query self context internal_req)
       \<and> (\<forall>hint exc. map_of (internal_data context) ''mirror.target_entity_id'' = Some hint
              \<and> decode_entity_id hint = Inl exc \<longrightarrow>
            start_auth self context internal_req = raise exc context)"
proof (intro conjI allI impI)
  assume "map_of (internal_data context) ''mirror.target_entity_id'' = None"
  with assms show "start_auth self context internal_req = disco_query self context internal_req"
    by (simp add: start_auth_def start_auth_except_KeyError)
next
  fix hint exc
  assume h: "map_of (internal_data context) ''mirror.target_entity_id'' = Some hint
              \<and> decode_entity_id hint = Inl exc"
  then have "exc \<noteq> KeyError" by (blast dest: decode_entity_id_error)
  then have "result (raise exc context) \<noteq> Inl (Raised KeyError)" by (simp add: raise_def)
  then have "start_auth_except self context internal_req (raise exc context) = raise exc context"
    by (rule start_auth_except_not_KeyError)
  with assms h show "start_auth self context internal_req = raise exc context"
    by (simp add: start_auth_def)
qed

theorem start_auth_hint_witness:
  "start_auth demo_backend empty_context (InternalRequest None None)
     = disco_query demo_backend empty_context (InternalRequest None None)
   \<and> start_auth demo_backend bad_hint_context (InternalRequest None None)
     = raise BinasciiError bad_hint_context"
proof -
  have e: "map_of (internal_data empty_context) ''mirror.target_entity_id'' = None"
    by (simp add: empty_context_def)
  have b: "map_of (internal_data bad_hint_context) ''mirror.target_entity_id'' = Some (str_of ''A'')
           \<and> decode_entity_id (str_of ''A'') = Inl BinasciiError"
    by (simp add: bad_hint_context_def bad_hint)
  from e start_auth_hint [OF demo_providers, of empty_context "InternalRequest None None"]
  have "start_auth demo_backend empty_context (InternalRequest None None)
     = disco_query demo_backend empty_context (InternalRequest None None)"
    by blast
  moreover from b start_auth_hint [OF demo_providers, of bad_hint_context "InternalRequest None None"]
  have "start_auth demo_backend bad_hint_context (InternalRequest None None)
     = raise BinasciiError bad_hint_context"
    by blast
  ultimately show ?thesis by simp
qed

text \<open>
  C4.  When the federation metadata lists exactly one identity provider, \<open>start_auth\<close>
  is \<open>authn_request\<close> for that provider's entity id: it makes no discovery request,
  and the internal data of the context, where the hint would be, has no influence on
  the outcome.
\<close>

theorem start_auth_single_idp:
  assumes "identity_providers (sp self) = [idp]"
  shows "start_auth self context internal_req = authn_request self context idp internal_req
       \<and> (\<forall>ret. Create_discovery_service_request ret
              \<notin> set (calls (start_auth self context internal_req)))
       \<and> (\<forall>d. start_auth self (context\<lparr>internal_data := d\<rparr>) internal_req
              = start_auth self context internal_req)"
proof -
  have eq: "start_auth self c internal_req = authn_request self c idp internal_req" for c
    using assms by (simp add: start_auth_def)
  show ?thesis
    by (simp add: eq authn_request_no_discovery authn_request_context)
qed

text \<open>With a single identity provider even the undecodable hint \<open>A\<close> is never looked at.\<close>

theorem start_auth_single_idp_witness:
  "start_auth single_idp_backend bad_hint_context (InternalRequest None None)
   = authn_request single_idp_backend bad_hint_context (str_of ''idp1'') (InternalRequest None None)
   \<and> start_auth single_idp_backend bad_hint_context (InternalRequest None None)
   = start_auth single_idp_backend (bad_hint_context\<lparr>internal_data := []\<rparr>)
       (InternalRequest None None)"
  using start_auth_single_idp [OF single_idp_providers, of bad_hint_context "InternalRequest None None"]
  by simp

text \<open>
  C5.  Decoding the URL-safe base64 UTF-8 encoding of an entity id, as
  \<open>get_metadata_desc\<close> produces it and \<open>start_auth\<close> consumes it, gives the entity id
  back: whenever the encoding returns a hint, decoding that hint returns the entity
  id; and the encoding returns a hint for every string of Unicode scalar values
  (every \<open>str\<close> without a lone surrogate, which \<open>encode("utf-8")\<close> refuses).
\<close>

theorem mirrored_entity_roundtrip:
  "(\<forall>hint. encode_entity_id entity_id = Inr hint \<longrightarrow> decode_entity_id hint = Inr entity_id)
   \<and> (list_all unicode_scalar entity_id \<longrightarrow> (\<exists>hint. encode_entity_id entity_id = Inr hint))"
proof (intro conjI allI impI)
  fix hint
  assume "encode_entity_id entity_id = Inr hint"
  then show "decode_entity_id hint = Inr entity_id" by (rule decode_encode_entity_id)
next
  assume "list_all unicode_scalar entity_id"
  then obtain raw where "encode_utf8 entity_id = Inr raw"
    using encode_utf8_scalar by blast
  then show "\<exists>hint. encode_entity_id entity_id = Inr hint"
    by (simp add: encode_entity_id_Inr)
qed

text \<open>The entity id \<open>h\<close>, e acute, euro sign: its hint is \<open>aMOp4oKs\<close>.\<close>

theorem mirrored_entity_roundtrip_witness:
  "list_all unicode_scalar [104, 233, 8364]
   \<and> encode_entity_id [104, 233, 8364] = Inr [97, 77, 79, 112, 52, 111, 75, 115]
   \<and> decode_entity_id [97, 77, 79, 112, 52, 111, 75, 115] = Inr [104, 233, 8364]"
  using mirrored_entity_roundtrip [of "[104, 233, 8364]"]
  by (simp add: encode_entity_id_def urlsafe_b64encode_def table_b2a_base64_def
        urlsafe_encode_translation_def emit_def unicode_scalar_def)


text \<open>
  C7.  When the request was constructed and serialised with the redirect binding:
  without a \<open>Location\<close> header \<open>authn_request\<close> raises the parameter error; with one
  it returns a redirect to the location of the first such header.
\<close>

theorem authn_request_redirect_location:
  assumes "snd (authn_request_try self entity_id (req_args self))
           = Inr (BINDING_HTTP_REDIRECT, ht, relay_state)"
  shows "(''Location'' \<notin> fst ` set (headers ht) \<longrightarrow>
            result (authn_request self context entity_id internal_req)
            = Inl (SATOSAAuthenticationError (state_add (state context) (name self) relay_state)
                     ''Parameter error'' None))
       \<and> (\<forall>v. map_of (headers ht) ''Location'' = Some v \<longrightarrow>
            result (authn_request self context entity_id internal_req) = Inr (SeeOther v))
       \<and> (''Location'' \<in> fst ` set (headers ht) \<longrightarrow>
            (\<exists>v. (''Location'', v) \<in> set (headers ht)
               \<and> result (authn_request self context entity_id internal_req) = Inr (SeeOther v)))"
proof (intro conjI allI impI)
  assume "''Location'' \<notin> fst ` set (headers ht)"
  then have "map_of (headers ht) ''Location'' = None" by (simp add: map_of_eq_None_iff)
  then show "result (authn_request self context entity_id internal_req)
            = Inl (SATOSAAuthenticationError (state_add (state context) (name self) relay_state)
                     ''Parameter error'' None)"
    by (simp add: authn_request_Inr [OF assms])
next
  fix v
  assume "map_of (headers ht) ''Location'' = Some v"
  then show "result (authn_request self context entity_id internal_req) = Inr (SeeOther v)"
    by (simp add: authn_request_Inr [OF assms])
next
  assume "''Location'' \<in> fst ` set (headers ht)"
  then obtain v where v: "map_of (headers ht) ''Location'' = Some v"
    by (cases "map_of (headers ht) ''Location''") (auto simp: map_of_eq_None_iff)
  then have "(''Location'', v) \<in> set (headers ht)" by (rule map_of_SomeD)
  moreover from v have "result (authn_request self context entity_id internal_req) = Inr (SeeOther v)"
    by (simp add: authn_request_Inr [OF assms])
  ultimately show "\<exists>v. (''Location'', v) \<in> set (headers ht)
               \<and> result (authn_request self context entity_id internal_req) = Inr (SeeOther v)"
    by blast
qed

theorem authn_request_redirect_location_witness:
  "result (authn_request headerless_backend empty_context (str_of ''idp1'') (InternalRequest None None))
     = Inl (SATOSAAuthenticationError [(''saml'', str_of ''tok'')] ''Parameter error'' None)
   \<and> result (authn_request demo_backend empty_context (str_of ''idp1'') (InternalRequest None None))
     = Inr (SeeOther (str_of ''loc''))"
  using authn_request_redirect_location [of headerless_backend "str_of ''idp1''"
      "\<lparr>headers = [(''Cache-Control'', str_of ''no-cache'')], data = []\<rparr>" "str_of ''tok''"
      empty_context "InternalRequest None None"]
    authn_request_redirect_location [of demo_backend "str_of ''idp1''"
      "\<lparr>headers = [(''Location'', str_of ''loc'')], data = []\<rparr>" "str_of ''tok''"
      empty_context "InternalRequest None None"]
  by (simp add: headerless_try demo_try context_states demo_name backend_names state_add_def)

text \<open>
  C8.  The claim: a callback whose \<open>SAMLResponse\<close> value is absent or empty ends in
  the missing-response error before anything is parsed.  For an empty value it does
  (\<open>authn_response_empty_payload\<close>).  For a request without the parameter the
  subscript \<open>_authn_response["SAMLResponse"]\<close> raises \<open>KeyError\<close>, which nothing
  catches: the run ends in \<open>KeyError\<close>, not in the missing-response error.
  \<open>disco_response\<close> catches the \<open>KeyError\<close> of its own parameter.
\<close>

theorem authn_response_absent_payload:
  "authn_response self (context\<lparr>request := [(''RelayState'', echoed)]\<rparr>) binding =
     \<lparr>result = Inl (Raised KeyError), state_after = state context, calls = []\<rparr>"
  by (simp add: authn_response_def raise_def)

text \<open>
  C9.  \<open>disco_response\<close> raises the no-IdP-chosen error exactly when the request has no
  \<open>entityID\<close> parameter; otherwise it is \<open>authn_request\<close> for the chosen entity id with
  the empty internal request.
\<close>

theorem disco_response_entity_id:
  "disco_response self context =
     (case map_of (request context) ''entityID'' of
        None \<Rightarrow>
          \<lparr>result = Inl (SATOSAAuthenticationError (state context) ''No IDP chosen'' (Some KeyError)),
           state_after = state context, calls = []\<rparr>
      | Some entity_id \<Rightarrow> authn_request self context entity_id (InternalRequest None None))
   \<and> ((\<exists>st cause. result (disco_response self context)
          = Inl (SATOSAAuthenticationError st ''No IDP chosen'' cause))
       \<longleftrightarrow> map_of (request context) ''entityID'' = None)"
proof -
  have eq: "disco_response self context =
     (case map_of (request context) ''entityID'' of
        None \<Rightarrow>
          \<lparr>result = Inl (SATOSAAuthenticationError (state context) ''No IDP chosen'' (Some KeyError)),
           state_after = state context, calls = []\<rparr>
      | Some entity_id \<Rightarrow> authn_request self context entity_id (InternalRequest None None))"
    by (simp add: disco_response_def Let_def split: option.splits)
  have "\<not> (\<exists>st cause. result (authn_request self context e (InternalRequest None None))
          = Inl (SATOSAAuthenticationError st ''No IDP chosen'' cause))" for e
    by (auto dest: authn_request_messages)
  with eq show ?thesis by (auto split: option.splits)
qed

theorem disco_response_entity_id_witness:
  "result (disco_response demo_backend empty_context)
     = Inl (SATOSAAuthenticationError [] ''No IDP chosen'' (Some KeyError))
   \<and> disco_response demo_backend (empty_context\<lparr>request := [(''entityID'', str_of ''idp2'')]\<rparr>)
     = authn_request demo_backend (empty_context\<lparr>request := [(''entityID'', str_of ''idp2'')]\<rparr>)
         (str_of ''idp2'') (InternalRequest None None)"
  using disco_response_entity_id [of demo_backend empty_context]
    disco_response_entity_id [of demo_backend
      "empty_context\<lparr>request := [(''entityID'', str_of ''idp2'')]\<rparr>"]
  by (simp add: empty_context_def)

text \<open>
  C10.  When \<open>authn_request\<close> fails while picking the binding, constructing the request
  or serialising it, it raises the request-construction error and leaves the session
  state as it was: nothing is stored under the adapter's name.  The token is stored
  only once the construction has succeeded.
\<close>

theorem authn_request_failure_keeps_state:
  "(\<forall>st cause. result (authn_request self context entity_id internal_req)
        = Inl (SATOSAAuthenticationError st ''Failed to construct the AuthnRequest'' cause)
      \<longrightarrow> st = state context
          \<and> state_after (authn_request self context entity_id internal_req) = state context)
   \<and> (\<forall>exc. snd (authn_request_try self entity_id (req_args self)) = Inl exc
      \<longrightarrow> result (authn_request self context entity_id internal_req)
           = Inl (SATOSAAuthenticationError (state context)
                    ''Failed to construct the AuthnRequest'' (Some exc))
          \<and> state_after (authn_request self context entity_id internal_req) = state context)
   \<and> (\<forall>binding ht relay_state.
        snd (authn_request_try self entity_id (req_args self)) = Inr (binding, ht, relay_state)
      \<longrightarrow> state_after (authn_request self context entity_id internal_req)
           = state_add (state context) (name self) relay_state)"
  by (cases rule: authn_request_cases [of self entity_id])
     (auto simp add: authn_request_Inl authn_request_Inr split: option.splits if_splits)

text \<open>
  With a stale token \<open>old\<close> pending: the failing deployment leaves it, the working one
  replaces it by the fresh token.
\<close>

theorem authn_request_failure_keeps_state_witness:
  "result (authn_request failing_backend pending_context (str_of ''idp1'') (InternalRequest None None))
     = Inl (SATOSAAuthenticationError [(''saml'', str_of ''old'')]
              ''Failed to construct the AuthnRequest'' (Some (LibraryError ''UnknownSystemEntity'')))
   \<and> state_after (authn_request failing_backend pending_context (str_of ''idp1'')
        (InternalRequest None None)) = [(''saml'', str_of ''old'')]
   \<and> state_after (authn_request demo_backend pending_context (str_of ''idp1'')
        (InternalRequest None None)) = [(''saml'', str_of ''tok'')]"
proof -
  have f: "snd (authn_request_try failing_backend (str_of ''idp1'') (req_args failing_backend))
           = Inl (LibraryError ''UnknownSystemEntity'')"
    by (simp add: failing_try)
  have d: "snd (authn_request_try demo_backend (str_of ''idp1'') (req_args demo_backend))
           = Inr (BINDING_HTTP_REDIRECT, \<lparr>headers = [(''Location'', str_of ''loc'')], data = []\<rparr>,
                  str_of ''tok'')"
    by (simp add: demo_try)
  from f authn_request_failure_keeps_state [of failing_backend pending_context "str_of ''idp1''"
      "InternalRequest None None"]
  have "result (authn_request failing_backend pending_context (str_of ''idp1'') (InternalRequest None None))
     = Inl (SATOSAAuthenticationError (state pending_context)
              ''Failed to construct the AuthnRequest'' (Some (LibraryError ''UnknownSystemEntity'')))
     \<and> state_after (authn_request failing_backend pending_context (str_of ''idp1'')
        (InternalRequest None None)) = state pending_context"
    by blast
  moreover from d authn_request_failure_keeps_state [of demo_backend pending_context "str_of ''idp1''"
      "InternalRequest None None"]
  have "state_after (authn_request demo_backend pending_context (str_of ''idp1'')
        (InternalRequest None None))
        = state_add (state pending_context) (name demo_backend) (str_of ''tok'')"
    by blast
  ultimately show ?thesis
    by (simp add: context_states demo_name state_add_def)
qed

end
